theory Spec2Isabelle
  imports Complex_Main "HOL-Library.Word"
begin

unbundle bit_operations_syntax

section \<open>Data model of the renderer\<close>

text \<open>
  The C sources store every coordinate and colour channel in a 32-bit \<^verbatim>\<open>float\<close>.
  A \<^verbatim>\<open>float\<close> is read as a real number, and two readings of the arithmetic are used.
  In the exact reading an operation is the real-number operation the code writes down;
  the theorems on such definitions are statements about that arithmetic, not about IEEE
  rounding.  In the binary32 reading the result of every operation is rounded to the
  nearest binary32 number (section \<open>Binary32 arithmetic\<close>); \<^verbatim>\<open>c3d_backface\<close>, the index
  computation of \<^verbatim>\<open>c3d_texsample\<close> and the definitions whose names end in \<open>_f32\<close> are read
  this way, because what is stated about them depends on the rounding.  Infinities and
  NaN are not represented in either reading; in particular a division by zero, which
  gives an infinity or NaN in C, has no meaning here.  Integers keep their machine width
  where the code computes with them: the unsigned 32-bit fields (\<^verbatim>\<open>c3d_intui\<close>) are
  \<^typ>\<open>32 word\<close>, the unsigned 16-bit ones (\<^verbatim>\<open>c3d_intus\<close>) \<^typ>\<open>16 word\<close>.
\<close>

record vec2 =
  x2 :: real
  y2 :: real

record vec3 =
  x3 :: real
  y3 :: real
  z3 :: real

record vec4 =
  x4 :: real
  y4 :: real
  z4 :: real
  w4 :: real

text \<open>\<^verbatim>\<open>vex\<close>: a vertex in clip space together with the attributes it carries.\<close>

record vex =
  clip :: vec4
  space :: vec3
  normal :: vec3
  uv :: vec2

text \<open>\<^verbatim>\<open>mat4\<close>: \<^verbatim>\<open>float m[4][4]\<close>, row-major; field \<open>mij\<close> is \<^verbatim>\<open>m[i][j]\<close>.\<close>

record mat4 =
  m00 :: real  m01 :: real  m02 :: real  m03 :: real
  m10 :: real  m11 :: real  m12 :: real  m13 :: real
  m20 :: real  m21 :: real  m22 :: real  m23 :: real
  m30 :: real  m31 :: real  m32 :: real  m33 :: real

record tri =
  vx :: vec3   vy :: vec3   vz :: vec3
  uvx :: vec2  uvy :: vec2  uvz :: vec2
  nvx :: vec3  nvy :: vec3  nvz :: vec3

text \<open>A texture; \<open>data = None\<close> is the C null pointer in \<^verbatim>\<open>tex->data\<close>.\<close>

record texture =
  data :: "vec3 list option"
  width :: "32 word"
  height :: "32 word"
  channels :: "32 word"

section \<open>Binary32 arithmetic\<close>

text \<open>
  Rounding to binary32, round to nearest, ties to even.  \<open>rne\<close> rounds a real to the
  nearest integer, a tie to the even one.  A non-zero \<open>x\<close> with \<open>2^e \<le> |x| < 2^(e+1)\<close> lies
  on or between two neighbours of the grid of spacing \<open>2^(e-23)\<close> (24 significant bits),
  and of spacing \<open>2^-149\<close> in the subnormal range \<open>e < -126\<close>; \<open>f32 x\<close> is the nearer one.
  The exponent is not bounded from above: \<open>f32 x\<close> is the value a C \<^verbatim>\<open>float\<close> operation
  with exact result \<open>x\<close> delivers as long as \<open>|f32 x| < 2^128\<close>, where C delivers an infinity
  instead.  Every operation is taken to round once, to binary32 (no wider intermediate
  format, no fused multiply-add).
\<close>

definition rne :: "real \<Rightarrow> int" where
  "rne y =
     (let f = \<lfloor>y\<rfloor>; d = y - of_int f
      in if d < 1 / 2 then f else if 1 / 2 < d then f + 1
         else if even f then f else f + 1)"

definition ulp32 :: "real \<Rightarrow> real" where
  "ulp32 x = 2 powr of_int (max (\<lfloor>log 2 \<bar>x\<bar>\<rfloor> - 23) (- 149))"

definition f32 :: "real \<Rightarrow> real" where
  "f32 x = (if x = 0 then 0 else of_int (rne (x / ulp32 x)) * ulp32 x)"

section \<open>Linear algebra\<close>

definition c3d_mat4vec4 :: "vec3 \<Rightarrow> mat4 \<Rightarrow> vec4" where
  "c3d_mat4vec4 A B =
     \<lparr> x4 = m00 B * x3 A + m01 B * y3 A + m02 B * z3 A + m03 B,
       y4 = m10 B * x3 A + m11 B * y3 A + m12 B * z3 A + m13 B,
       z4 = m20 B * x3 A + m21 B * y3 A + m22 B * z3 A + m23 B,
       w4 = m30 B * x3 A + m31 B * y3 A + m32 B * z3 A + m33 B \<rparr>"

definition c3d_vec3cross :: "vec3 \<Rightarrow> vec3 \<Rightarrow> vec3" where
  "c3d_vec3cross a b =
     \<lparr> x3 = y3 a * z3 b - z3 a * y3 b,
       y3 = z3 a * x3 b - x3 a * z3 b,
       z3 = x3 a * y3 b - y3 a * x3 b \<rparr>"

definition c3d_vec3dot :: "vec3 \<Rightarrow> vec3 \<Rightarrow> real" where
  "c3d_vec3dot A B = x3 A * x3 B + y3 A * y3 B + z3 A * z3 B"


definition c3d_vec3cross_f32 :: "vec3 \<Rightarrow> vec3 \<Rightarrow> vec3" where
  "c3d_vec3cross_f32 a b =
     \<lparr> x3 = f32 (f32 (y3 a * z3 b) - f32 (z3 a * y3 b)),
       y3 = f32 (f32 (z3 a * x3 b) - f32 (x3 a * z3 b)),
       z3 = f32 (f32 (x3 a * y3 b) - f32 (y3 a * x3 b)) \<rparr>"

definition c3d_vec3dot_f32 :: "vec3 \<Rightarrow> vec3 \<Rightarrow> real" where
  "c3d_vec3dot_f32 A B = f32 (f32 (f32 (x3 A * x3 B) + f32 (y3 A * y3 B)) + f32 (z3 A * z3 B))"

definition vec3_zero :: vec3 where
  "vec3_zero = \<lparr> x3 = 0, y3 = 0, z3 = 0 \<rparr>"

section \<open>Vertices and near-plane clipping\<close>

text \<open>\<^verbatim>\<open>c3d_lerp\<close>: every attribute is interpolated as \<open>A + t * (B - A)\<close>.\<close>

definition c3d_lerp :: "vex \<Rightarrow> vex \<Rightarrow> real \<Rightarrow> vex" where
  "c3d_lerp A B t =
     \<lparr> clip = \<lparr> x4 = x4 (clip A) + t * (x4 (clip B) - x4 (clip A)),
                 y4 = y4 (clip A) + t * (y4 (clip B) - y4 (clip A)),
                 z4 = z4 (clip A) + t * (z4 (clip B) - z4 (clip A)),
                 w4 = w4 (clip A) + t * (w4 (clip B) - w4 (clip A)) \<rparr>,
       space = \<lparr> x3 = x3 (space A) + t * (x3 (space B) - x3 (space A)),
                  y3 = y3 (space A) + t * (y3 (space B) - y3 (space A)),
                  z3 = z3 (space A) + t * (z3 (space B) - z3 (space A)) \<rparr>,
       normal = \<lparr> x3 = x3 (normal A) + t * (x3 (normal B) - x3 (normal A)),
                   y3 = y3 (normal A) + t * (y3 (normal B) - y3 (normal A)),
                   z3 = z3 (normal A) + t * (z3 (normal B) - z3 (normal A)) \<rparr>,
       uv = \<lparr> x2 = x2 (uv A) + t * (x2 (uv B) - x2 (uv A)),
               y2 = y2 (uv A) + t * (y2 (uv B) - y2 (uv A)) \<rparr> \<rparr>"

text \<open>
  \<^verbatim>\<open>c3d_nearintersect\<close>: the parameter is \<open>Ad / (Ad - Bd)\<close>.  The clipper calls it
  only for an edge with one end inside and one end outside, where \<open>Ad \<noteq> Bd\<close>.
\<close>

definition near_param :: "vex \<Rightarrow> vex \<Rightarrow> real" where
  "near_param A B =
     (let Ad = z4 (clip A) + w4 (clip A);
          Bd = z4 (clip B) + w4 (clip B)
      in Ad / (Ad - Bd))"

definition c3d_nearintersect :: "vex \<Rightarrow> vex \<Rightarrow> vex" where
  "c3d_nearintersect A B = c3d_lerp A B (near_param A B)"

definition c3d_innear :: "vex \<Rightarrow> bool" where
  "c3d_innear v \<longleftrightarrow> z4 (clip v) + w4 (clip v) \<ge> 0"

text \<open>
  \<^verbatim>\<open>c3d_suthhodgman\<close>: one pass over the edges \<open>(i, (i+1) mod inCount)\<close>; the three
  \<^verbatim>\<open>if\<close> statements of the loop body are executed in sequence.  The list returned
  is \<^verbatim>\<open>temp[0..outCount)\<close>, the returned count is its length.
\<close>

definition suth_step :: "vex list \<Rightarrow> vex list \<Rightarrow> nat \<Rightarrow> vex list" where
  "suth_step inVerts temp i =
     (let current = inVerts ! i;
          next = inVerts ! ((i + 1) mod length inVerts);
          currInside = c3d_innear current;
          nextInside = c3d_innear next;
          temp1 = (if currInside \<and> nextInside then temp @ [next] else temp);
          temp2 = (if currInside \<and> \<not> nextInside
                   then temp1 @ [c3d_nearintersect current next] else temp1);
          temp3 = (if \<not> currInside \<and> nextInside
                   then temp2 @ [c3d_nearintersect current next, next] else temp2)
      in temp3)"

definition c3d_suthhodgman :: "vex list \<Rightarrow> vex list" where
  "c3d_suthhodgman inVerts = foldl (suth_step inVerts) [] [0..<length inVerts]"

definition mk_vex :: "mat4 \<Rightarrow> vec3 \<Rightarrow> vec3 \<Rightarrow> vec2 \<Rightarrow> vex" where
  "mk_vex matcam p n t =
     \<lparr> clip = c3d_mat4vec4 p matcam, space = p, normal = n, uv = t \<rparr>"

definition tri_of :: "vex \<Rightarrow> vex \<Rightarrow> vex \<Rightarrow> tri" where
  "tri_of a b c =
     \<lparr> vx = space a, vy = space b, vz = space c,
       uvx = uv a, uvy = uv b, uvz = uv c,
       nvx = normal a, nvy = normal b, nvz = normal c \<rparr>"

text \<open>
  \<^verbatim>\<open>c3d_nearclip\<close>: the list returned is \<^verbatim>\<open>clippedtri[0..n)\<close> for the returned
  count \<open>n\<close>.
\<close>

definition nearclip_in :: "tri \<Rightarrow> mat4 \<Rightarrow> vex list" where
  "nearclip_in t matcam =
     [mk_vex matcam (vx t) (nvx t) (uvx t),
      mk_vex matcam (vy t) (nvy t) (uvy t),
      mk_vex matcam (vz t) (nvz t) (uvz t)]"

definition c3d_nearclip :: "tri \<Rightarrow> mat4 \<Rightarrow> tri list" where
  "c3d_nearclip t matcam =
     (let out = c3d_suthhodgman (nearclip_in t matcam);
          outc = length out
      in if outc < 3 then []
         else if outc = 3 then [tri_of (out ! 0) (out ! 1) (out ! 2)]
         else if outc = 4 then [tri_of (out ! 0) (out ! 1) (out ! 2),
                                tri_of (out ! 0) (out ! 2) (out ! 3)]
         else [])"










text \<open>
  \<^verbatim>\<open>c3d_backface\<close> (compiled in: \<^verbatim>\<open>BACKFACE_CULLING\<close> is defined at the top of the
  header), in the binary32 reading: the nine differences, the cross product and the dot
  product are computed with rounding, and the triangle is culled when the rounded dot
  product is not negative.
\<close>

definition c3d_backface :: "tri \<Rightarrow> vec3 \<Rightarrow> bool" where
  "c3d_backface t cpos =
     (let u = \<lparr> x3 = f32 (x3 (vy t) - x3 (vx t)), y3 = f32 (y3 (vy t) - y3 (vx t)),
                z3 = f32 (z3 (vy t) - z3 (vx t)) \<rparr>;
          v = \<lparr> x3 = f32 (x3 (vz t) - x3 (vx t)), y3 = f32 (y3 (vz t) - y3 (vx t)),
                z3 = f32 (z3 (vz t) - z3 (vx t)) \<rparr>;
          n = c3d_vec3cross_f32 u v;
          view = \<lparr> x3 = f32 (x3 (vx t) - x3 cpos), y3 = f32 (y3 (vx t) - y3 cpos),
                   z3 = f32 (z3 (vx t) - z3 cpos) \<rparr>;
          dot = c3d_vec3dot_f32 n view
      in dot \<ge> 0)"

section \<open>Scene model\<close>

text \<open>
  A C array together with its count field (\<^verbatim>\<open>lights\<close> and \<^verbatim>\<open>light_count\<close>,
  \<^verbatim>\<open>meshes\<close> and \<^verbatim>\<open>mesh_count\<close>, \<^verbatim>\<open>behaviors\<close> and \<^verbatim>\<open>behavior_count\<close>,
  \<^verbatim>\<open>tris\<close> and \<^verbatim>\<open>tri_count\<close>) is a list.  A pointer that may be null is an option.
  A function pointer is the address of the function, a natural number.
\<close>

record light =
  position :: vec3
  color :: vec3
  brightness :: real
  radius :: real

record material =
  ambient_color :: vec3
  diffuse_color :: vec3
  specular_color :: vec3
  shininess :: real
  transparency :: real
  illumination_model :: int
  diffuse_tex :: "texture option"
  specular_tex :: "texture option"
  normal_tex :: "texture option"

record cam =
  pos :: vec3
  matrot :: mat4
  theta :: real
  fov :: real
  aspect :: real
  fnear :: real
  ffar :: real
  yaw :: real
  pitch :: real
  speed :: real

record mesh =
  name :: string
  tris :: "tri list"
  mtl :: material

datatype behavior_type = C3D_CONTINUOUS_BEHAVIOR | C3D_STARTUP_BEHAVIOR

record behavior =
  func :: "nat option"
  btype :: behavior_type
  args :: "string list"

record display =
  meshes :: "mesh list"
  background_color :: vec3
  background_tex :: "texture option"
  camera :: cam
  behaviors :: "behavior list"
  lights :: "light list"
  running :: bool
  display_width :: "16 word"
  display_height :: "16 word"
  frame_count :: "32 word"

text \<open>
  The two ways in which the C code modelled below can leave defined behaviour: following
  a null pointer, and indexing outside an array.
\<close>

datatype fault = NullDeref | OutOfBounds

section \<open>Texture sampling\<close>

text \<open>
  \<^verbatim>\<open>C3D_CLAMP(var, x, y)\<close> is \<^verbatim>\<open>(var > y) ? y : ((var < x) ? x : var)\<close>.  A C cast
  \<^verbatim>\<open>(int)\<close> of a float truncates towards zero.
\<close>

definition C3D_CLAMP :: "real \<Rightarrow> real \<Rightarrow> real \<Rightarrow> real" where
  "C3D_CLAMP var x y = (if var > y then y else if var < x then x else var)"

definition c_trunc :: "real \<Rightarrow> int" where
  "c_trunc r = (if 0 \<le> r then \<lfloor>r\<rfloor> else \<lceil>r\<rceil>)"

definition clamp_color :: "vec3 \<Rightarrow> vec3" where
  "clamp_color c = \<lparr> x3 = C3D_CLAMP (x3 c) 0 1, y3 = C3D_CLAMP (y3 c) 0 1, z3 = C3D_CLAMP (z3 c) 0 1 \<rparr>"

text \<open>
  \<^verbatim>\<open>c3d_texsample\<close>.  \<^verbatim>\<open>tex->width - 1\<close> is unsigned 32-bit arithmetic.  In
  \<^verbatim>\<open>u * (tex->width - 1)\<close> the unsigned value is converted to \<^verbatim>\<open>float\<close>, which rounds
  it to binary32, and the product is rounded again; so are \<^verbatim>\<open>1.0f - v\<close> and its product with
  the converted \<^verbatim>\<open>tex->height - 1\<close>.  In \<^verbatim>\<open>tex_y * tex->width + tex_x\<close> the two \<^verbatim>\<open>int\<close>s are
  converted to unsigned, the sum wraps modulo \<open>2^32\<close>, and the result is stored in the
  \<^verbatim>\<open>int index\<close> (two's complement).  \<open>tex_index\<close> is that \<^verbatim>\<open>index\<close>.
\<close>

definition tex_index :: "texture \<Rightarrow> real \<Rightarrow> real \<Rightarrow> int" where
  "tex_index tex u v =
     (let u' = C3D_CLAMP u 0 1;
          v' = C3D_CLAMP v 0 1;
          tex_x = c_trunc (f32 (u' * f32 (real (unat (width tex - 1)))));
          tex_y = c_trunc (f32 (f32 (1 - v') * f32 (real (unat (height tex - 1)))))
      in sint (word_of_int tex_y * width tex + word_of_int tex_x :: 32 word))"

definition c3d_texsample :: "texture \<Rightarrow> real \<Rightarrow> real \<Rightarrow> fault + vec3" where
  "c3d_texsample tex u v =
     (case data tex of
        None \<Rightarrow> Inr \<lparr> x3 = 1, y3 = 1, z3 = 1 \<rparr>
      | Some samples \<Rightarrow>
          (let index = tex_index tex u v
           in if 0 \<le> index \<and> index < int (length samples)
              then Inr (clamp_color (samples ! nat index))
              else Inl OutOfBounds))"


section \<open>Blinn-Phong shading\<close>

text \<open>
  \<^verbatim>\<open>max\<close> and \<^verbatim>\<open>min\<close> are the macros \<^verbatim>\<open>((a) > (b)) ? (a) : (b)\<close> and
  \<^verbatim>\<open>((a) < (b)) ? (a) : (b)\<close>.  \<^verbatim>\<open>powf\<close> is only applied to a base \<open>N \<bullet> H \<ge> 0\<close>; for the
  base 0 it is 1 at exponent 0 and 0 at a positive exponent (at a negative exponent C
  returns an infinity, which this reading does not have).
\<close>

definition c3d_vec3normalize :: "vec3 \<Rightarrow> vec3" where
  "c3d_vec3normalize vec =
     (let V = sqrt ((x3 vec)\<^sup>2 + (y3 vec)\<^sup>2 + (z3 vec)\<^sup>2)
      in if V \<noteq> 0 then \<lparr> x3 = x3 vec / V, y3 = y3 vec / V, z3 = z3 vec / V \<rparr> else vec)"

definition cmax :: "real \<Rightarrow> real \<Rightarrow> real" where
  "cmax a b = (if a > b then a else b)"

definition cmin :: "real \<Rightarrow> real \<Rightarrow> real" where
  "cmin a b = (if a < b then a else b)"

definition powf :: "real \<Rightarrow> real \<Rightarrow> real" where
  "powf b e = (if b = 0 \<and> e = 0 then 1 else b powr e)"

text \<open>
  One iteration of the loop over the lights in \<^verbatim>\<open>c3d_bphongshade\<close>: \<open>acc\<close> is the
  pair \<^verbatim>\<open>(*out_diffuse, *out_specular)\<close>, and \<^verbatim>\<open>continue\<close> returns it unchanged.
\<close>

definition bphong_light ::
  "display \<Rightarrow> vec3 \<Rightarrow> vec3 \<Rightarrow> material \<Rightarrow> vec3 \<times> vec3 \<Rightarrow> light \<Rightarrow> vec3 \<times> vec3" where
  "bphong_light d nrm spc mt acc L =
     (let out_diffuse = fst acc;
          out_specular = snd acc;
          toLight0 = \<lparr> x3 = x3 (position L) - x3 spc, y3 = y3 (position L) - y3 spc,
                       z3 = z3 (position L) - z3 spc \<rparr>;
          dist0 = sqrt (x3 toLight0 * x3 toLight0 + y3 toLight0 * y3 toLight0 + z3 toLight0 * z3 toLight0);
          dist = (if dist0 \<le> 0.0001 then 0.0001 else dist0);
          toLight = c3d_vec3normalize toLight0;
          NdotL = cmax 0 (c3d_vec3dot nrm toLight)
      in if NdotL > 0 then
           (if dist > radius L then acc
            else
              (let attenuation = 1 / (1 + (dist / radius L) * (dist / radius L));
                   viewDir = c3d_vec3normalize
                     \<lparr> x3 = x3 (pos (camera d)) - x3 spc, y3 = y3 (pos (camera d)) - y3 spc,
                       z3 = z3 (pos (camera d)) - z3 spc \<rparr>;
                   halfDir = c3d_vec3normalize
                     \<lparr> x3 = x3 viewDir + x3 toLight, y3 = y3 viewDir + y3 toLight,
                       z3 = z3 viewDir + z3 toLight \<rparr>;
                   NdotH = cmax 0 (c3d_vec3dot nrm halfDir);
                   specular_factor = powf NdotH (shininess mt)
               in (\<lparr> x3 = x3 out_diffuse + x3 (diffuse_color mt) * x3 (color L) * brightness L,
                      y3 = y3 out_diffuse + y3 (diffuse_color mt) * y3 (color L) * brightness L,
                      z3 = z3 out_diffuse + z3 (diffuse_color mt) * z3 (color L) * brightness L \<rparr>,
                   \<lparr> x3 = x3 out_specular
                            + x3 (specular_color mt) * x3 (color L) * brightness L * specular_factor * attenuation,
                      y3 = y3 out_specular
                            + y3 (specular_color mt) * y3 (color L) * brightness L * specular_factor * attenuation,
                      z3 = z3 out_specular
                            + z3 (specular_color mt) * z3 (color L) * brightness L * specular_factor * attenuation \<rparr>)))
         else acc)"

definition c3d_bphongshade :: "display \<Rightarrow> vec3 \<Rightarrow> vec3 \<Rightarrow> material \<Rightarrow> vec3 \<times> vec3 \<times> vec3" where
  "c3d_bphongshade d nrm spc mt =
     (let acc = foldl (bphong_light d nrm spc mt) (vec3_zero, vec3_zero) (lights d)
      in (clamp_color (ambient_color mt), clamp_color (fst acc), clamp_color (snd acc)))"


section \<open>Rasterization\<close>

definition c3d_project_vec3vec2 :: "vec3 \<Rightarrow> int \<Rightarrow> int \<Rightarrow> vec2" where
  "c3d_project_vec3vec2 ndc screen_width screen_height =
     \<lparr> x2 = (x3 ndc + 1) * 0.5 * real_of_int screen_width,
       y2 = (1 - y3 ndc) * 0.5 * real_of_int screen_height \<rparr>"

definition c3d_edge :: "vec2 \<Rightarrow> vec2 \<Rightarrow> vec2 \<Rightarrow> real" where
  "c3d_edge v0 v1 v2 = (x2 v2 - x2 v0) * (y2 v1 - y2 v0) - (x2 v1 - x2 v0) * (y2 v2 - y2 v0)"

definition C3D_MAX :: "real \<Rightarrow> real \<Rightarrow> real \<Rightarrow> real" where
  "C3D_MAX a b c = cmax (cmax a b) c"

definition C3D_MIN :: "real \<Rightarrow> real \<Rightarrow> real \<Rightarrow> real" where
  "C3D_MIN a b c = cmin (cmin a b) c"

text \<open>
  \<^verbatim>\<open>RGB(r, g, b)\<close> packs the low bytes of its arguments into a \<^verbatim>\<open>COLORREF\<close>
  \<^verbatim>\<open>0x00bbggrr\<close>; \<^verbatim>\<open>C3D_PXCHAR\<close> is the full-block glyph U+2588.
\<close>

definition RGB :: "int \<Rightarrow> int \<Rightarrow> int \<Rightarrow> 32 word" where
  "RGB r g b = word_of_int (r mod 256) OR push_bit 8 (word_of_int (g mod 256))
                 OR push_bit 16 (word_of_int (b mod 256))"

definition C3D_PXCHAR :: "16 word" where
  "C3D_PXCHAR = 0x2588"

text \<open>
  The three per-frame buffers, indexed \<^verbatim>\<open>[y][x]\<close>.  A depth entry \<open>None\<close> is the
  initial \<^verbatim>\<open>INFINITY\<close>, below which every depth lies.
\<close>

record buffers =
  buffer :: "16 word list list"
  colorBuffer :: "32 word list list"
  depthBuffer :: "real option list list"

definition depth_less :: "real \<Rightarrow> real option \<Rightarrow> bool" where
  "depth_less z dz = (case dz of None \<Rightarrow> True | Some z' \<Rightarrow> z < z')"

definition put :: "'a list list \<Rightarrow> nat \<Rightarrow> nat \<Rightarrow> 'a \<Rightarrow> 'a list list" where
  "put rows y x v = rows[y := (rows ! y)[x := v]]"

text \<open>
  The colour of one covered sample in \<^verbatim>\<open>c3d_rasterize\<close>: combine, mix against the
  background, clamp (\<open>final_color\<close>); then convert each channel with \<^verbatim>\<open>(int)(c * 255.0f)\<close>
  and pack.  \<^verbatim>\<open>c3d_texsample\<close> reads through \<^verbatim>\<open>mtl->diffuse_tex\<close>, so a null
  texture pointer is a fault.
\<close>

definition final_color :: "display \<Rightarrow> material \<Rightarrow> vec3 \<times> vec3 \<times> vec3 \<Rightarrow> vec3 \<Rightarrow> vec3" where
  "final_color d mt shade tex_color =
     (let ambient = fst shade; diffuse = fst (snd shade); specular = snd (snd shade);
          c1 = \<lparr> x3 = (x3 ambient + x3 diffuse) * x3 tex_color + x3 specular,
                 y3 = (y3 ambient + y3 diffuse) * y3 tex_color + y3 specular,
                 z3 = (z3 ambient + z3 diffuse) * z3 tex_color + z3 specular \<rparr>;
          c2 = \<lparr> x3 = (1 - transparency mt) * x3 (background_color d) + transparency mt * x3 c1,
                 y3 = (1 - transparency mt) * y3 (background_color d) + transparency mt * y3 c1,
                 z3 = (1 - transparency mt) * z3 (background_color d) + transparency mt * z3 c1 \<rparr>
      in clamp_color c2)"

definition pixel_color :: "display \<Rightarrow> material \<Rightarrow> vec3 \<Rightarrow> vec3 \<Rightarrow> real \<Rightarrow> real \<Rightarrow> fault + 32 word" where
  "pixel_color d mt nrm spc u v =
     (let shade = c3d_bphongshade d nrm spc mt
      in case diffuse_tex mt of
           None \<Rightarrow> Inl NullDeref
         | Some tex \<Rightarrow>
             (case c3d_texsample tex u v of
                Inl e \<Rightarrow> Inl e
              | Inr tex_color \<Rightarrow>
                  (let fc = final_color d mt shade tex_color
                   in Inr (RGB (c_trunc (x3 fc * 255)) (c_trunc (y3 fc * 255)) (c_trunc (z3 fc * 255))))))"

text \<open>
  The body of the two pixel loops, for the pixel \<open>(x, y)\<close>, and the loops themselves.
  The bounding box is clipped to \<open>[0, W-1] \<times> [0, H-1]\<close>, the size of the buffers that
  \<^verbatim>\<open>c3d_update\<close> allocates.
\<close>

definition rasterize_px ::
  "display \<Rightarrow> vec3 \<Rightarrow> vec3 \<Rightarrow> vec3 \<Rightarrow> real \<Rightarrow> real \<Rightarrow> real \<Rightarrow> tri \<Rightarrow> material
     \<Rightarrow> int \<Rightarrow> fault + buffers \<Rightarrow> int \<Rightarrow> fault + buffers" where
  "rasterize_px d v0_ndc v1_ndc v2_ndc w0_clip w1_clip w2_clip t mt y st x =
     (case st of
        Inl e \<Rightarrow> Inl e
      | Inr bufs \<Rightarrow>
     (let pv0 = c3d_project_vec3vec2 v0_ndc (uint (display_width d)) (uint (display_height d));
          pv1 = c3d_project_vec3vec2 v1_ndc (uint (display_width d)) (uint (display_height d));
          pv2 = c3d_project_vec3vec2 v2_ndc (uint (display_width d)) (uint (display_height d));
          area = c3d_edge pv0 pv1 pv2;
          inv_w0 = 1 / w0_clip; inv_w1 = 1 / w1_clip; inv_w2 = 1 / w2_clip;
          vxy = \<lparr> x2 = real_of_int x + 0.5, y2 = real_of_int y + 0.5 \<rparr>;
          w0 = c3d_edge pv1 pv2 vxy / area;
          w1 = c3d_edge pv2 pv0 vxy / area;
          w2 = c3d_edge pv0 pv1 vxy / area
      in if w0 \<ge> 0 \<and> w1 \<ge> 0 \<and> w2 \<ge> 0 then
           (let denom = w0 * inv_w0 + w1 * inv_w1 + w2 * inv_w2
            in if denom = 0 then Inr bufs
               else
                 (let z = (z3 v0_ndc * w0 / w0_clip + z3 v1_ndc * w1 / w1_clip
                             + z3 v2_ndc * w2 / w2_clip) / denom
                  in if depth_less z (depthBuffer bufs ! nat y ! nat x) then
                       (let u = (x2 (uvx t) * inv_w0 * w0 + x2 (uvy t) * inv_w1 * w1
                                   + x2 (uvz t) * inv_w2 * w2) / denom;
                            v = (y2 (uvx t) * inv_w0 * w0 + y2 (uvy t) * inv_w1 * w1
                                   + y2 (uvz t) * inv_w2 * w2) / denom;
                            spc = \<lparr> x3 = (x3 (vx t) * inv_w0 * w0 + x3 (vy t) * inv_w1 * w1
                                            + x3 (vz t) * inv_w2 * w2) / denom,
                                    y3 = (y3 (vx t) * inv_w0 * w0 + y3 (vy t) * inv_w1 * w1
                                            + y3 (vz t) * inv_w2 * w2) / denom,
                                    z3 = (z3 (vx t) * inv_w0 * w0 + z3 (vy t) * inv_w1 * w1
                                            + z3 (vz t) * inv_w2 * w2) / denom \<rparr>;
                            nrm = c3d_vec3normalize
                                  \<lparr> x3 = (x3 (nvx t) * inv_w0 * w0 + x3 (nvy t) * inv_w1 * w1
                                            + x3 (nvz t) * inv_w2 * w2) / denom,
                                    y3 = (y3 (nvx t) * inv_w0 * w0 + y3 (nvy t) * inv_w1 * w1
                                            + y3 (nvz t) * inv_w2 * w2) / denom,
                                    z3 = (z3 (nvx t) * inv_w0 * w0 + z3 (nvy t) * inv_w1 * w1
                                            + z3 (nvz t) * inv_w2 * w2) / denom \<rparr>
                        in case pixel_color d mt nrm spc u v of
                             Inl e \<Rightarrow> Inl e
                           | Inr col \<Rightarrow>
                               Inr \<lparr> buffer = put (buffer bufs) (nat y) (nat x) C3D_PXCHAR,
                                     colorBuffer = put (colorBuffer bufs) (nat y) (nat x) col,
                                     depthBuffer = put (depthBuffer bufs) (nat y) (nat x) (Some z) \<rparr>)
                     else Inr bufs))
         else Inr bufs))"

definition c3d_rasterize ::
  "display \<Rightarrow> buffers \<Rightarrow> vec3 \<Rightarrow> vec3 \<Rightarrow> vec3 \<Rightarrow> real \<Rightarrow> real \<Rightarrow> real \<Rightarrow> tri \<Rightarrow> material
     \<Rightarrow> fault + buffers" where
  "c3d_rasterize d bufs v0_ndc v1_ndc v2_ndc w0_clip w1_clip w2_clip t mt =
     (let pv0 = c3d_project_vec3vec2 v0_ndc (uint (display_width d)) (uint (display_height d));
          pv1 = c3d_project_vec3vec2 v1_ndc (uint (display_width d)) (uint (display_height d));
          pv2 = c3d_project_vec3vec2 v2_ndc (uint (display_width d)) (uint (display_height d));
          minx = c_trunc (cmax (C3D_MIN (x2 pv0) (x2 pv1) (x2 pv2)) 0);
          maxx = c_trunc (cmin (C3D_MAX (x2 pv0) (x2 pv1) (x2 pv2))
                               (real_of_int (uint (display_width d) - 1)));
          miny = c_trunc (cmax (C3D_MIN (y2 pv0) (y2 pv1) (y2 pv2)) 0);
          maxy = c_trunc (cmin (C3D_MAX (y2 pv0) (y2 pv1) (y2 pv2))
                               (real_of_int (uint (display_height d) - 1)));
          area = c3d_edge pv0 pv1 pv2
      in if area = 0 then Inr bufs
         else foldl (\<lambda>st y.
                foldl (rasterize_px d v0_ndc v1_ndc v2_ndc w0_clip w1_clip w2_clip t mt y) st [minx..maxx])
              (Inr bufs) [miny..maxy])"


section \<open>The per-frame driver\<close>

definition C3D_PI :: real where
  "C3D_PI = 3.14159265358979323846"

definition C3D_DEG2RAD :: "real \<Rightarrow> real" where
  "C3D_DEG2RAD x = x * C3D_PI / 180"

definition c3d_mat4prj :: "real \<Rightarrow> real \<Rightarrow> real \<Rightarrow> real \<Rightarrow> mat4" where
  "c3d_mat4prj near far fov_deg asp =
     (let f = 1 / tan (0.5 * C3D_DEG2RAD fov_deg)
      in \<lparr> m00 = f / asp, m01 = 0, m02 = 0, m03 = 0,
           m10 = 0, m11 = f, m12 = 0, m13 = 0,
           m20 = 0, m21 = 0, m22 = (far + near) / (near - far), m23 = (2 * far * near) / (near - far),
           m30 = 0, m31 = 0, m32 = - 1, m33 = 0 \<rparr>)"

definition c3d_mat4tra :: "real \<Rightarrow> real \<Rightarrow> real \<Rightarrow> mat4" where
  "c3d_mat4tra x y z =
     \<lparr> m00 = 1, m01 = 0, m02 = 0, m03 = x,
       m10 = 0, m11 = 1, m12 = 0, m13 = y,
       m20 = 0, m21 = 0, m22 = 1, m23 = z,
       m30 = 0, m31 = 0, m32 = 0, m33 = 1 \<rparr>"

definition c3d_mat4mul :: "mat4 \<Rightarrow> mat4 \<Rightarrow> mat4" where
  "c3d_mat4mul A B =
     \<lparr> m00 = m00 A * m00 B + m01 A * m10 B + m02 A * m20 B + m03 A * m30 B,
       m01 = m00 A * m01 B + m01 A * m11 B + m02 A * m21 B + m03 A * m31 B,
       m02 = m00 A * m02 B + m01 A * m12 B + m02 A * m22 B + m03 A * m32 B,
       m03 = m00 A * m03 B + m01 A * m13 B + m02 A * m23 B + m03 A * m33 B,
       m10 = m10 A * m00 B + m11 A * m10 B + m12 A * m20 B + m13 A * m30 B,
       m11 = m10 A * m01 B + m11 A * m11 B + m12 A * m21 B + m13 A * m31 B,
       m12 = m10 A * m02 B + m11 A * m12 B + m12 A * m22 B + m13 A * m32 B,
       m13 = m10 A * m03 B + m11 A * m13 B + m12 A * m23 B + m13 A * m33 B,
       m20 = m20 A * m00 B + m21 A * m10 B + m22 A * m20 B + m23 A * m30 B,
       m21 = m20 A * m01 B + m21 A * m11 B + m22 A * m21 B + m23 A * m31 B,
       m22 = m20 A * m02 B + m21 A * m12 B + m22 A * m22 B + m23 A * m32 B,
       m23 = m20 A * m03 B + m21 A * m13 B + m22 A * m23 B + m23 A * m33 B,
       m30 = m30 A * m00 B + m31 A * m10 B + m32 A * m20 B + m33 A * m30 B,
       m31 = m30 A * m01 B + m31 A * m11 B + m32 A * m21 B + m33 A * m31 B,
       m32 = m30 A * m02 B + m31 A * m12 B + m32 A * m22 B + m33 A * m32 B,
       m33 = m30 A * m03 B + m31 A * m13 B + m32 A * m23 B + m33 A * m33 B \<rparr>"

text \<open>The matrix \<^verbatim>\<open>matcam\<close> that \<^verbatim>\<open>c3d_update\<close> builds from the camera.\<close>

definition c3d_matcam :: "cam \<Rightarrow> mat4" where
  "c3d_matcam c =
     (let matproj = c3d_mat4prj (fnear c) (ffar c) (fov c) (aspect c);
          camtranslate = c3d_mat4tra (- x3 (pos c)) (- y3 (pos c)) (- z3 (pos c));
          camview = c3d_mat4mul (matrot c) camtranslate
      in c3d_mat4mul matproj camview)"






text \<open>
  The body of the loop over the clipped triangles of one input triangle: backface test,
  projection of the three corners with \<^verbatim>\<open>matcam\<close>, perspective division, bounds
  rejection, rasterization.
\<close>

definition ndc_of :: "vec4 \<Rightarrow> vec3" where
  "ndc_of c = \<lparr> x3 = x4 c / w4 c, y3 = y4 c / w4 c, z3 = z4 c / w4 c \<rparr>"

definition ndc_reject :: "vec3 \<Rightarrow> vec3 \<Rightarrow> vec3 \<Rightarrow> bool" where
  "ndc_reject a b c \<longleftrightarrow>
     (x3 a < - 1 \<and> x3 b < - 1 \<and> x3 c < - 1) \<or>
     (x3 a > 1 \<and> x3 b > 1 \<and> x3 c > 1) \<or>
     (y3 a < - 1 \<and> y3 b < - 1 \<and> y3 c < - 1) \<or>
     (y3 a > 1 \<and> y3 b > 1 \<and> y3 c > 1) \<or>
     (z3 a < - 1 \<and> z3 b < - 1 \<and> z3 c < - 1) \<or>
     (z3 a > 1 \<and> z3 b > 1 \<and> z3 c > 1)"

definition draw_clipped :: "display \<Rightarrow> mat4 \<Rightarrow> material \<Rightarrow> fault + buffers \<Rightarrow> tri \<Rightarrow> fault + buffers" where
  "draw_clipped d matcam mt st t =
     (case st of
        Inl e \<Rightarrow> Inl e
      | Inr bufs \<Rightarrow>
          if c3d_backface t (pos (camera d)) then Inr bufs
          else
            (let v0_clip = c3d_mat4vec4 (vx t) matcam;
                 v1_clip = c3d_mat4vec4 (vy t) matcam;
                 v2_clip = c3d_mat4vec4 (vz t) matcam;
                 v0_ndc = ndc_of v0_clip; v1_ndc = ndc_of v1_clip; v2_ndc = ndc_of v2_clip
             in if ndc_reject v0_ndc v1_ndc v2_ndc then Inr bufs
                else c3d_rasterize d bufs v0_ndc v1_ndc v2_ndc
                       (w4 v0_clip) (w4 v1_clip) (w4 v2_clip) t mt))"

definition draw_mesh :: "display \<Rightarrow> mat4 \<Rightarrow> fault + buffers \<Rightarrow> mesh \<Rightarrow> fault + buffers" where
  "draw_mesh d matcam st m =
     foldl (\<lambda>st t. foldl (draw_clipped d matcam (mtl m)) st (c3d_nearclip t matcam)) st (tris m)"

definition fresh_buffers :: "display \<Rightarrow> buffers" where
  "fresh_buffers d =
     \<lparr> buffer = replicate (unat (display_height d)) (replicate (unat (display_width d)) 0x20),
       colorBuffer = replicate (unat (display_height d)) (replicate (unat (display_width d)) (RGB 0 0 0)),
       depthBuffer = replicate (unat (display_height d)) (replicate (unat (display_width d)) None) \<rparr>"

definition draw_frame :: "display \<Rightarrow> fault + buffers" where
  "draw_frame d = foldl (draw_mesh d (c3d_matcam (camera d))) (Inr (fresh_buffers d)) (meshes d)"

text \<open>
  The walk over \<^verbatim>\<open>d->behaviors\<close>.  A behaviour holds a function pointer (\<open>None\<close> is
  \<^verbatim>\<open>NULL\<close>); \<open>call f d args\<close> is the display after the function at address \<open>f\<close>
  has run on \<open>d\<close>.  The loop re-reads \<^verbatim>\<open>d->behavior_count\<close>, \<^verbatim>\<open>d->behaviors[i]\<close> and
  \<^verbatim>\<open>d->frame_count\<close> from the display as the callbacks left it, so it need not
  terminate.  \<open>fired\<close> records the indices of the behaviours that were called.
\<close>

partial_function (option) run_behaviors ::
  "(nat \<Rightarrow> display \<Rightarrow> string list \<Rightarrow> display) \<Rightarrow> display \<Rightarrow> nat \<Rightarrow> nat list
     \<Rightarrow> (display \<times> nat list) option" where
  "run_behaviors call d i fired =
     (if i < length (behaviors d) then
        (let b = behaviors d ! i
         in case func b of
              None \<Rightarrow> run_behaviors call d (i + 1) fired
            | Some f \<Rightarrow>
                (case btype b of
                   C3D_CONTINUOUS_BEHAVIOR \<Rightarrow>
                     run_behaviors call (call f d (args b)) (i + 1) (fired @ [i])
                 | C3D_STARTUP_BEHAVIOR \<Rightarrow>
                     if frame_count d = 0
                     then run_behaviors call (call f d (args b)) (i + 1) (fired @ [i])
                     else run_behaviors call d (i + 1) fired))
      else Some (d, fired))"

text \<open>
  \<^verbatim>\<open>c3d_update\<close>: behaviours, drawing into fresh buffers, \<^verbatim>\<open>d->frame_count++\<close>, then
  \<^verbatim>\<open>c3d_render(d, buffer, colorBuffer)\<close>, whose console output is left abstract.
\<close>

record 'o update_result =
  final :: display
  ran_behaviors :: "nat list"
  rendered :: 'o

definition c3d_update ::
  "(nat \<Rightarrow> display \<Rightarrow> string list \<Rightarrow> display) \<Rightarrow> (display \<Rightarrow> buffers \<Rightarrow> 'o) \<Rightarrow> display
     \<Rightarrow> (fault + 'o update_result) option" where
  "c3d_update call c3d_render d =
     (case run_behaviors call d 0 [] of
        None \<Rightarrow> None
      | Some (d1, fired) \<Rightarrow>
          (case draw_frame d1 of
             Inl e \<Rightarrow> Some (Inl e)
           | Inr bufs \<Rightarrow>
               (let d2 = d1\<lparr> frame_count := frame_count d1 + 1 \<rparr>
                in Some (Inr \<lparr> final = d2, ran_behaviors = fired, rendered = c3d_render d2 bufs \<rparr>))))"

definition c3d_resetdisplay :: "display \<Rightarrow> display" where
  "c3d_resetdisplay d =
     d\<lparr> background_color := vec3_zero,
        camera := (camera d)\<lparr> pos := vec3_zero, fov := 70, speed := 0.5 \<rparr>,
        display_width := 800, display_height := 600,
        meshes := [], frame_count := 0 \<rparr>"


section \<open>Smooth normals\<close>

text \<open>
  \<^verbatim>\<open>c3d_vecnormalavg\<close>, one definition per loop: find the unique positions (first
  match within \<open>1e-6\<close> per component; \<open>unique_positions\<close> returns
  \<^verbatim>\<open>positions_unique\<close> and \<^verbatim>\<open>map_unique\<close>), add each normalised face normal to the
  three buckets of its triangle (\<open>bucket_sums\<close>), average and renormalise each bucket
  (\<open>bucket_normals\<close>), write the bucket normals back into the triangles
  (\<open>smooth_tris\<close>).
\<close>

definition near_pos :: "vec3 \<Rightarrow> vec3 \<Rightarrow> bool" where
  "near_pos p v \<longleftrightarrow>
     \<bar>x3 p - x3 v\<bar> < 1 / 10 ^ 6 \<and> \<bar>y3 p - y3 v\<bar> < 1 / 10 ^ 6 \<and> \<bar>z3 p - z3 v\<bar> < 1 / 10 ^ 6"

fun find_unique :: "vec3 list \<Rightarrow> vec3 \<Rightarrow> nat \<Rightarrow> nat option" where
  "find_unique [] v j = None"
| "find_unique (p # ps) v j = (if near_pos p v then Some j else find_unique ps v (j + 1))"

definition unique_step :: "vec3 list \<times> nat list \<Rightarrow> vec3 \<Rightarrow> vec3 list \<times> nat list" where
  "unique_step st v =
     (let positions_unique = fst st; map_unique = snd st
      in case find_unique positions_unique v 0 of
           None \<Rightarrow> (positions_unique @ [v], map_unique @ [length positions_unique])
         | Some found \<Rightarrow> (positions_unique, map_unique @ [found]))"

definition positions_of :: "tri list \<Rightarrow> vec3 list" where
  "positions_of ts = concat (map (\<lambda>t. [vx t, vy t, vz t]) ts)"

definition face_normal :: "tri \<Rightarrow> vec3" where
  "face_normal t =
     (let u = \<lparr> x3 = x3 (vy t) - x3 (vx t), y3 = y3 (vy t) - y3 (vx t), z3 = z3 (vy t) - z3 (vx t) \<rparr>;
          v = \<lparr> x3 = x3 (vz t) - x3 (vx t), y3 = y3 (vz t) - y3 (vx t), z3 = z3 (vz t) - z3 (vx t) \<rparr>
      in c3d_vec3normalize (c3d_vec3cross u v))"

definition add_normal :: "vec3 list \<times> int list \<Rightarrow> nat \<Rightarrow> vec3 \<Rightarrow> vec3 list \<times> int list" where
  "add_normal st k n =
     (let sum_normals = fst st; arr_count = snd st
      in (sum_normals[k := \<lparr> x3 = x3 (sum_normals ! k) + x3 n, y3 = y3 (sum_normals ! k) + y3 n, z3 = z3 (sum_normals ! k) + z3 n \<rparr>],
          arr_count[k := arr_count ! k + 1]))"

definition accumulate_step ::
  "tri list \<Rightarrow> nat list \<Rightarrow> vec3 list \<times> int list \<Rightarrow> nat \<Rightarrow> vec3 list \<times> int list" where
  "accumulate_step ts map_unique st i =
     (let n = face_normal (ts ! i);
          i0 = map_unique ! (i * 3 + 0);
          i1 = map_unique ! (i * 3 + 1);
          i2 = map_unique ! (i * 3 + 2)
      in add_normal (add_normal (add_normal st i0 n) i1 n) i2 n)"

definition average_normal :: "vec3 \<Rightarrow> int \<Rightarrow> vec3" where
  "average_normal s c =
     (if c > 0
      then c3d_vec3normalize \<lparr> x3 = x3 s / real_of_int c, y3 = y3 s / real_of_int c, z3 = z3 s / real_of_int c \<rparr>
      else s)"

definition write_normals :: "vec3 list \<Rightarrow> nat list \<Rightarrow> tri list \<Rightarrow> nat \<Rightarrow> tri" where
  "write_normals avg map_unique ts i =
     (ts ! i)\<lparr> nvx := avg ! (map_unique ! (i * 3 + 0)),
               nvy := avg ! (map_unique ! (i * 3 + 1)),
               nvz := avg ! (map_unique ! (i * 3 + 2)) \<rparr>"

definition unique_positions :: "tri list \<Rightarrow> vec3 list \<times> nat list" where
  "unique_positions ts = foldl unique_step ([], []) (positions_of ts)"

definition bucket_sums :: "tri list \<Rightarrow> vec3 list \<times> int list" where
  "bucket_sums ts =
     (let positions_unique = fst (unique_positions ts);
          map_unique = snd (unique_positions ts);
          zero = (replicate (length positions_unique) vec3_zero, replicate (length positions_unique) 0)
      in foldl (accumulate_step ts map_unique) zero [0..<length ts])"

definition bucket_normals :: "tri list \<Rightarrow> vec3 list" where
  "bucket_normals ts = map2 average_normal (fst (bucket_sums ts)) (snd (bucket_sums ts))"

definition smooth_tris :: "tri list \<Rightarrow> tri list" where
  "smooth_tris ts =
     map (write_normals (bucket_normals ts) (snd (unique_positions ts)) ts) [0..<length ts]"

definition c3d_vecnormalavg :: "mesh \<Rightarrow> mesh" where
  "c3d_vecnormalavg m = m\<lparr> tris := smooth_tris (tris m) \<rparr>"

section \<open>Notions used to state the properties\<close>

text \<open>
  Componentwise difference, the (unnormalised) face normal \<open>(vy - vx) \<times> (vz - vx)\<close> and
  the plane through the three corners in parametric form, all in exact arithmetic; and
  the reverse winding of a triangle that keeps its first corner (the corners and their
  attributes in the order \<open>vx, vz, vy\<close>).
\<close>

definition vec3sub :: "vec3 \<Rightarrow> vec3 \<Rightarrow> vec3" where
  "vec3sub a b = \<lparr> x3 = x3 a - x3 b, y3 = y3 a - y3 b, z3 = z3 a - z3 b \<rparr>"

definition tri_normal :: "tri \<Rightarrow> vec3" where
  "tri_normal t = c3d_vec3cross (vec3sub (vy t) (vx t)) (vec3sub (vz t) (vx t))"

definition on_tri_plane :: "tri \<Rightarrow> vec3 \<Rightarrow> bool" where
  "on_tri_plane t p \<longleftrightarrow>
     (\<exists>a b. x3 p = x3 (vx t) + a * (x3 (vy t) - x3 (vx t)) + b * (x3 (vz t) - x3 (vx t)) \<and>
            y3 p = y3 (vx t) + a * (y3 (vy t) - y3 (vx t)) + b * (y3 (vz t) - y3 (vx t)) \<and>
            z3 p = z3 (vx t) + a * (z3 (vy t) - z3 (vx t)) + b * (z3 (vz t) - z3 (vx t)))"

definition tri_reverse :: "tri \<Rightarrow> tri" where
  "tri_reverse t = \<lparr> vx = vx t, vy = vz t, vz = vy t,
                     uvx = uvx t, uvy = uvz t, uvz = uvy t,
                     nvx = nvx t, nvy = nvz t, nvz = nvy t \<rparr>"

text \<open>
  The rounded componentwise difference, and the value that \<^verbatim>\<open>c3d_backface\<close> compares
  with zero: \<open>((vy - vx) \<times> (vz - vx)) \<bullet> (vx - cpos)\<close> with every operation rounded to
  binary32.
\<close>

definition vec3sub_f32 :: "vec3 \<Rightarrow> vec3 \<Rightarrow> vec3" where
  "vec3sub_f32 a b = \<lparr> x3 = f32 (x3 a - x3 b), y3 = f32 (y3 a - y3 b), z3 = f32 (z3 a - z3 b) \<rparr>"

definition backface_dot :: "tri \<Rightarrow> vec3 \<Rightarrow> real" where
  "backface_dot t cpos =
     c3d_vec3dot_f32 (c3d_vec3cross_f32 (vec3sub_f32 (vy t) (vx t)) (vec3sub_f32 (vz t) (vx t)))
       (vec3sub_f32 (vx t) cpos)"

text \<open>
  A rounded result is a finite binary32 number when its magnitude is below \<open>2^128\<close>.
  \<open>backface_finite\<close> says so of every intermediate result of \<^verbatim>\<open>c3d_backface\<close>: the nine
  differences, the six products and three components of the cross product, and the
  three products and two sums of the dot product.  \<open>coord_bound b p\<close> bounds the
  coordinates of a point.
\<close>

definition finite32 :: "real \<Rightarrow> bool" where
  "finite32 x \<longleftrightarrow> \<bar>x\<bar> < 2 ^ 128"

definition vec_finite :: "vec3 \<Rightarrow> bool" where
  "vec_finite p \<longleftrightarrow> finite32 (x3 p) \<and> finite32 (y3 p) \<and> finite32 (z3 p)"

definition cross_finite :: "vec3 \<Rightarrow> vec3 \<Rightarrow> bool" where
  "cross_finite a b \<longleftrightarrow>
     finite32 (f32 (y3 a * z3 b)) \<and> finite32 (f32 (z3 a * y3 b)) \<and>
     finite32 (f32 (z3 a * x3 b)) \<and> finite32 (f32 (x3 a * z3 b)) \<and>
     finite32 (f32 (x3 a * y3 b)) \<and> finite32 (f32 (y3 a * x3 b)) \<and>
     vec_finite (c3d_vec3cross_f32 a b)"

definition dot_finite :: "vec3 \<Rightarrow> vec3 \<Rightarrow> bool" where
  "dot_finite A B \<longleftrightarrow>
     finite32 (f32 (x3 A * x3 B)) \<and> finite32 (f32 (y3 A * y3 B)) \<and> finite32 (f32 (z3 A * z3 B)) \<and>
     finite32 (f32 (f32 (x3 A * x3 B) + f32 (y3 A * y3 B))) \<and>
     finite32 (c3d_vec3dot_f32 A B)"

definition backface_finite :: "tri \<Rightarrow> vec3 \<Rightarrow> bool" where
  "backface_finite t cpos \<longleftrightarrow>
     (let u = vec3sub_f32 (vy t) (vx t);
          v = vec3sub_f32 (vz t) (vx t);
          n = c3d_vec3cross_f32 u v;
          view = vec3sub_f32 (vx t) cpos
      in vec_finite u \<and> vec_finite v \<and> vec_finite view \<and> cross_finite u v \<and> dot_finite n view)"

definition coord_bound :: "real \<Rightarrow> vec3 \<Rightarrow> bool" where
  "coord_bound b p \<longleftrightarrow> \<bar>x3 p\<bar> \<le> b \<and> \<bar>y3 p\<bar> \<le> b \<and> \<bar>z3 p\<bar> \<le> b"

text \<open>The binary32 grid: an integer of at most 24 bits times a power of two not below \<open>2^-149\<close>.\<close>

definition is_f32 :: "real \<Rightarrow> bool" where
  "is_f32 y \<longleftrightarrow> (\<exists>m j. - 149 \<le> j \<and> \<bar>m\<bar> \<le> 2 ^ 24 \<and> y = of_int m * 2 powr of_int j)"

text \<open>
  The interpolation \<open>lerp(a, b, t)\<close> as the specification writes it, the corners of a
  triangle rotated by one position, and the two extreme cases of the near-plane test
  on the three clip-space vertices that \<^verbatim>\<open>c3d_nearclip\<close> builds.
\<close>

definition lerp :: "real \<Rightarrow> real \<Rightarrow> real \<Rightarrow> real" where
  "lerp a b t = (1 - t) * a + t * b"

definition tri_rotate :: "tri \<Rightarrow> tri" where
  "tri_rotate t = \<lparr> vx = vy t, vy = vz t, vz = vx t,
                    uvx = uvy t, uvy = uvz t, uvz = uvx t,
                    nvx = nvy t, nvy = nvz t, nvz = nvx t \<rparr>"

definition all_inside :: "tri \<Rightarrow> mat4 \<Rightarrow> bool" where
  "all_inside t matcam \<longleftrightarrow> list_all c3d_innear (nearclip_in t matcam)"

definition all_outside :: "tri \<Rightarrow> mat4 \<Rightarrow> bool" where
  "all_outside t matcam \<longleftrightarrow> list_all (\<lambda>v. \<not> c3d_innear v) (nearclip_in t matcam)"

text \<open>
  The quantities the shading loop computes for one light: the direction to the light,
  the distance (raised to at least \<open>0.0001\<close>) and \<open>N \<bullet> L\<close>.
\<close>

definition to_light :: "vec3 \<Rightarrow> light \<Rightarrow> vec3" where
  "to_light spc L = \<lparr> x3 = x3 (position L) - x3 spc, y3 = y3 (position L) - y3 spc,
                       z3 = z3 (position L) - z3 spc \<rparr>"

definition light_dist :: "vec3 \<Rightarrow> light \<Rightarrow> real" where
  "light_dist spc L =
     (let dist0 = sqrt (x3 (to_light spc L) * x3 (to_light spc L) + y3 (to_light spc L) * y3 (to_light spc L)
                        + z3 (to_light spc L) * z3 (to_light spc L))
      in if dist0 \<le> 0.0001 then 0.0001 else dist0)"

definition light_ndotl :: "vec3 \<Rightarrow> vec3 \<Rightarrow> light \<Rightarrow> real" where
  "light_ndotl nrm spc L = cmax 0 (c3d_vec3dot nrm (c3d_vec3normalize (to_light spc L)))"



text \<open>
  Whether the behaviour at index \<open>i\<close> is due in an update that starts from display \<open>d\<close>:
  it has a function to call, and it is continuous or the frame counter is zero.
\<close>

definition fires :: "display \<Rightarrow> nat \<Rightarrow> bool" where
  "fires d i \<longleftrightarrow>
     func (behaviors d ! i) \<noteq> None \<and>
     (btype (behaviors d ! i) = C3D_CONTINUOUS_BEHAVIOR \<or> frame_count d = 0)"

text \<open>Callbacks that leave the frame counter and the behaviour list of the display alone.\<close>

definition keeps_schedule :: "(nat \<Rightarrow> display \<Rightarrow> string list \<Rightarrow> display) \<Rightarrow> bool" where
  "keeps_schedule call \<longleftrightarrow>
     (\<forall>f d a. frame_count (call f d a) = frame_count d \<and> behaviors (call f d a) = behaviors d)"

section \<open>Example scenes\<close>

text \<open>A triangle in the plane \<open>z = 0\<close>, used to instantiate the theorems.\<close>

definition ex_tri :: tri where
  "ex_tri = \<lparr> vx = \<lparr> x3 = 0, y3 = 0, z3 = 0 \<rparr>, vy = \<lparr> x3 = 1, y3 = 0, z3 = 0 \<rparr>, vz = \<lparr> x3 = 0, y3 = 1, z3 = 0 \<rparr>,
              uvx = \<lparr> x2 = 0, y2 = 0 \<rparr>, uvy = \<lparr> x2 = 1, y2 = 0 \<rparr>, uvz = \<lparr> x2 = 0, y2 = 1 \<rparr>,
              nvx = \<lparr> x3 = 0, y3 = 0, z3 = 1 \<rparr>, nvy = \<lparr> x3 = 0, y3 = 0, z3 = 1 \<rparr>, nvz = \<lparr> x3 = 0, y3 = 0, z3 = 1 \<rparr> \<rparr>"

text \<open>The identity matrix, and one vertex on each side of the near plane.\<close>

definition mat4_id :: mat4 where
  "mat4_id = \<lparr> m00 = 1, m01 = 0, m02 = 0, m03 = 0,
               m10 = 0, m11 = 1, m12 = 0, m13 = 0,
               m20 = 0, m21 = 0, m22 = 1, m23 = 0,
               m30 = 0, m31 = 0, m32 = 0, m33 = 1 \<rparr>"

definition ex_vex_in :: vex where
  "ex_vex_in = \<lparr> clip = \<lparr> x4 = 0, y4 = 0, z4 = 1, w4 = 2 \<rparr>, space = \<lparr> x3 = 0, y3 = 0, z3 = -2 \<rparr>,
                 normal = \<lparr> x3 = 0, y3 = 0, z3 = 1 \<rparr>, uv = \<lparr> x2 = 0, y2 = 0 \<rparr> \<rparr>"

definition ex_vex_out :: vex where
  "ex_vex_out = \<lparr> clip = \<lparr> x4 = 4, y4 = 0, z4 = -2, w4 = 1 \<rparr>, space = \<lparr> x3 = 4, y3 = 0, z3 = 1 \<rparr>,
                  normal = \<lparr> x3 = 1, y3 = 0, z3 = 0 \<rparr>, uv = \<lparr> x2 = 1, y2 = 1 \<rparr> \<rparr>"

text \<open>An all-outside triangle for the identity matrix: \<open>z + w = z + 1 < 0\<close>.\<close>

definition ex_tri_behind :: tri where
  "ex_tri_behind = \<lparr> vx = \<lparr> x3 = 0, y3 = 0, z3 = -2 \<rparr>, vy = \<lparr> x3 = 1, y3 = 0, z3 = -2 \<rparr>, vz = \<lparr> x3 = 0, y3 = 1, z3 = -3 \<rparr>,
              uvx = \<lparr> x2 = 0, y2 = 0 \<rparr>, uvy = \<lparr> x2 = 1, y2 = 0 \<rparr>, uvz = \<lparr> x2 = 0, y2 = 1 \<rparr>,
              nvx = \<lparr> x3 = 0, y3 = 0, z3 = 1 \<rparr>, nvy = \<lparr> x3 = 0, y3 = 0, z3 = 1 \<rparr>, nvz = \<lparr> x3 = 0, y3 = 0, z3 = 1 \<rparr> \<rparr>"

text \<open>Textures used to instantiate the theorems on sampling.\<close>

definition ex_tex_absent :: texture where
  "ex_tex_absent = \<lparr> data = None, width = 0, height = 0, channels = 0 \<rparr>"

definition ex_tex_huge :: texture where
  "ex_tex_huge = \<lparr> data = Some (replicate (65536 * 65536) \<lparr> x3 = 1, y3 = 1, z3 = 1 \<rparr>),
                   width = 65536, height = 65536, channels = 3 \<rparr>"

text \<open>A one-row texture of width \<open>2^24 + 4\<close>; \<open>width - 1\<close> is not a binary32 number.\<close>

definition ex_tex_wide :: texture where
  "ex_tex_wide = \<lparr> data = Some (replicate 16777220 \<lparr> x3 = 1, y3 = 1, z3 = 1 \<rparr>),
                   width = 16777220, height = 1, channels = 3 \<rparr>"

definition ex_tex_2x2 :: texture where
  "ex_tex_2x2 = \<lparr> data = Some [\<lparr> x3 = 1, y3 = 0, z3 = 0 \<rparr>, \<lparr> x3 = 0, y3 = 1, z3 = 0 \<rparr>,
                               \<lparr> x3 = 0, y3 = 0, z3 = 1 \<rparr>, \<lparr> x3 = 2, y3 = 1 / 2, z3 = - 1 \<rparr>],
                  width = 2, height = 2, channels = 3 \<rparr>"

text \<open>
  A scene with one white light of brightness 1 and radius 10 at \<open>(3, 0, 4)\<close>, the camera at
  the same place, and a sample at the origin with normal \<open>(0, 0, 1)\<close>; the light is at
  distance 5 and \<open>N \<bullet> L = 4/5\<close>.
\<close>

definition ex_light :: light where
  "ex_light = \<lparr> position = \<lparr> x3 = 3, y3 = 0, z3 = 4 \<rparr>, color = \<lparr> x3 = 1, y3 = 1, z3 = 1 \<rparr>,
                brightness = 1, radius = 10 \<rparr>"

definition ex_material :: material where
  "ex_material = \<lparr> ambient_color = \<lparr> x3 = 1 / 5, y3 = 1 / 5, z3 = 1 / 5 \<rparr>,
                   diffuse_color = \<lparr> x3 = 1 / 2, y3 = 1 / 2, z3 = 1 / 2 \<rparr>,
                   specular_color = \<lparr> x3 = 1, y3 = 1, z3 = 1 \<rparr>,
                   shininess = 1, transparency = 1, illumination_model = 2,
                   diffuse_tex = None, specular_tex = None, normal_tex = None \<rparr>"

definition ex_cam :: cam where
  "ex_cam = \<lparr> pos = \<lparr> x3 = 3, y3 = 0, z3 = 4 \<rparr>, matrot = mat4_id, theta = 0, fov = 90, aspect = 1,
              fnear = 1, ffar = 3, yaw = 0, pitch = 0, speed = 1 \<rparr>"

definition ex_display :: display where
  "ex_display = \<lparr> meshes = [], background_color = \<lparr> x3 = 64, y3 = 64, z3 = 128 \<rparr>,
                  background_tex = None, camera = ex_cam, behaviors = [], lights = [ex_light],
                  running = True, display_width = 4, display_height = 4, frame_count = 0 \<rparr>"

definition ex_up :: vec3 where
  "ex_up = \<lparr> x3 = 0, y3 = 0, z3 = 1 \<rparr>"













text \<open>
  A triangle with legs of length \<open>2^-80\<close> in the plane \<open>z = 0\<close>; the products of its edge
  coordinates are below the smallest positive binary32 number.
\<close>

definition ex_tiny :: real where
  "ex_tiny = 1 / 2 ^ 80"

definition ex_tri_tiny :: tri where
  "ex_tri_tiny = \<lparr> vx = \<lparr> x3 = 0, y3 = 0, z3 = 0 \<rparr>, vy = \<lparr> x3 = ex_tiny, y3 = 0, z3 = 0 \<rparr>,
              vz = \<lparr> x3 = 0, y3 = ex_tiny, z3 = 0 \<rparr>,
              uvx = \<lparr> x2 = 0, y2 = 0 \<rparr>, uvy = \<lparr> x2 = 1, y2 = 0 \<rparr>, uvz = \<lparr> x2 = 0, y2 = 1 \<rparr>,
              nvx = \<lparr> x3 = 0, y3 = 0, z3 = 1 \<rparr>, nvy = \<lparr> x3 = 0, y3 = 0, z3 = 1 \<rparr>, nvz = \<lparr> x3 = 0, y3 = 0, z3 = 1 \<rparr> \<rparr>"

text \<open>
  A triangle of ordinary size whose leg \<open>1 + 2^-12\<close> has a square of 25 significant bits,
  \<open>1 + 2^-11 + 2^-24\<close>, which binary32 rounds to \<open>1 + 2^-11\<close>; and a camera position next to
  its plane.
\<close>

definition ex_side :: real where
  "ex_side = 4097 / 4096"

definition ex_side_sq :: real where
  "ex_side_sq = 2049 / 2048"

definition ex_tri_slant :: tri where
  "ex_tri_slant = \<lparr> vx = \<lparr> x3 = 0, y3 = 0, z3 = 0 \<rparr>, vy = \<lparr> x3 = ex_side, y3 = 0, z3 = 0 \<rparr>,
              vz = \<lparr> x3 = 0, y3 = ex_side, z3 = 1 \<rparr>,
              uvx = \<lparr> x2 = 0, y2 = 0 \<rparr>, uvy = \<lparr> x2 = 1, y2 = 0 \<rparr>, uvz = \<lparr> x2 = 0, y2 = 1 \<rparr>,
              nvx = \<lparr> x3 = 0, y3 = 0, z3 = 1 \<rparr>, nvy = \<lparr> x3 = 0, y3 = 0, z3 = 1 \<rparr>, nvz = \<lparr> x3 = 0, y3 = 0, z3 = 1 \<rparr> \<rparr>"

definition ex_eye_slant :: vec3 where
  "ex_eye_slant = \<lparr> x3 = 0, y3 = - ex_side_sq, z3 = - ex_side \<rparr>"

text \<open>The triangle \<open>ex_tri\<close> with absent normals, as the loader writes them.\<close>

definition ex_tri_flat :: tri where
  "ex_tri_flat = ex_tri\<lparr> nvx := vec3_zero, nvy := vec3_zero, nvz := vec3_zero \<rparr>"

text \<open>
  A display with three behaviours (a startup callback, a continuous callback, and a
  continuous entry without function), callbacks that touch the running flag and the
  mesh list only, and a composer that reports the frame counter it is handed.
\<close>

definition ex_behaviors :: "behavior list" where
  "ex_behaviors = [\<lparr> func = Some 0, btype = C3D_STARTUP_BEHAVIOR, args = [] \<rparr>,
                   \<lparr> func = Some 1, btype = C3D_CONTINUOUS_BEHAVIOR, args = [] \<rparr>,
                   \<lparr> func = None, btype = C3D_CONTINUOUS_BEHAVIOR, args = [] \<rparr>]"

definition ex_stage :: "32 word \<Rightarrow> display" where
  "ex_stage n = \<lparr> meshes = [], background_color = vec3_zero, background_tex = None,
                  camera = ex_cam, behaviors = ex_behaviors, lights = [], running = True,
                  display_width = 2, display_height = 1, frame_count = n \<rparr>"

definition ex_call :: "nat \<Rightarrow> display \<Rightarrow> string list \<Rightarrow> display" where
  "ex_call f d a = (if f = 0 then d\<lparr> running := False \<rparr> else d\<lparr> meshes := [] \<rparr>)"

definition ex_render :: "display \<Rightarrow> buffers \<Rightarrow> 32 word" where
  "ex_render d bufs = frame_count d"

text \<open>
  A display whose first behaviour is a continuous callback that resets the display
  (\<^verbatim>\<open>c3d_resetdisplay\<close>) and whose second behaviour is a startup callback.
\<close>

definition ex_reset_behaviors :: "behavior list" where
  "ex_reset_behaviors = [\<lparr> func = Some 0, btype = C3D_CONTINUOUS_BEHAVIOR, args = [] \<rparr>,
                         \<lparr> func = Some 1, btype = C3D_STARTUP_BEHAVIOR, args = [] \<rparr>]"

definition ex_reset_stage :: display where
  "ex_reset_stage = \<lparr> meshes = [], background_color = vec3_zero, background_tex = None,
                  camera = ex_cam, behaviors = ex_reset_behaviors, lights = [], running = True,
                  display_width = 2, display_height = 1, frame_count = 5 \<rparr>"

definition ex_reset_call :: "nat \<Rightarrow> display \<Rightarrow> string list \<Rightarrow> display" where
  "ex_reset_call f d a = (if f = 0 then c3d_resetdisplay d else d\<lparr> running := False \<rparr>)"

section \<open>Binary32 arithmetic: properties\<close>

text \<open>
  Rounding to the nearest integer: integers are fixed, an integer bound on either side is
  kept, and the rounding is odd.
\<close>

lemma rne_of_int: "rne (of_int k) = k"
  by (simp add: rne_def)

lemma rne_le: "y \<le> of_int M \<Longrightarrow> rne y \<le> M"
  unfolding rne_def Let_def by (auto; linarith)

lemma rne_ge: "of_int M \<le> y \<Longrightarrow> M \<le> rne y"
  unfolding rne_def Let_def by (auto; linarith)

lemma rne_minus: "rne (- y) = - rne y"
proof (cases "y = of_int \<lfloor>y\<rfloor>")
  case True
  then obtain k where "y = of_int k" by metis
  then show ?thesis using rne_of_int[of "- k"] rne_of_int[of k] by simp
next
  case False
  then have fl: "\<lfloor>- y\<rfloor> = - \<lfloor>y\<rfloor> - 1"
    by (metis Ints_of_int ceiling_def floor_minus ceiling_altdef diff_minus_eq_add minus_diff_eq add.commute neg_equal_iff_equal uminus_add_conv_diff)
  show ?thesis unfolding rne_def Let_def fl by (auto; linarith?)
qed

text \<open>Powers of two with an integer exponent, and the exponent of a non-zero real.\<close>

lemma p2_add: "2 powr of_int (a + b) = 2 powr of_int a * (2 powr of_int b :: real)"
  by (simp add: powr_add)

lemma p2_int: "0 \<le> k \<Longrightarrow> (2::real) powr of_int k = of_int (2 ^ nat k)"
  by (simp add: powr_real_of_int)

lemma p2_mono: "a \<le> b \<Longrightarrow> (2::real) powr of_int a \<le> 2 powr of_int b"
  by simp

lemma exponent_bounds:
  assumes "x \<noteq> 0"
  shows "2 powr of_int \<lfloor>log 2 \<bar>x\<bar>\<rfloor> \<le> \<bar>x\<bar>" "\<bar>x\<bar> < 2 powr of_int (\<lfloor>log 2 \<bar>x\<bar>\<rfloor> + 1)"
  using floor_log_eq_powr_iff[of "\<bar>x\<bar>" 2 "\<lfloor>log 2 \<bar>x\<bar>\<rfloor>"] assms by simp_all

lemma exponent_eq:
  assumes "2 powr of_int k \<le> \<bar>x\<bar>" "\<bar>x\<bar> < 2 powr of_int (k + 1)"
  shows "\<lfloor>log 2 \<bar>x\<bar>\<rfloor> = k"
proof -
  have "0 < \<bar>x\<bar>" using assms(1) by (smt (verit) powr_gt_zero)
  then show ?thesis using floor_log_eq_powr_iff[of "\<bar>x\<bar>" 2 k] assms by simp
qed

lemma exponent_mono:
  assumes "x \<noteq> 0" "\<bar>x\<bar> \<le> \<bar>y\<bar>"
  shows "\<lfloor>log 2 \<bar>x\<bar>\<rfloor> \<le> \<lfloor>log 2 \<bar>y\<bar>\<rfloor>"
  using assms by (intro floor_mono) simp

text \<open>
  The rounding is odd and keeps the sign; \<open>f32_eval\<close> computes it for an argument whose
  exponent is known.
\<close>

lemma ulp32_pos: "0 < ulp32 x"
  by (simp add: ulp32_def)

lemma ulp32_minus: "ulp32 (- x) = ulp32 x"
  by (simp add: ulp32_def)

lemma ulp32_eq:
  assumes "2 powr of_int k \<le> \<bar>x\<bar>" "\<bar>x\<bar> < 2 powr of_int (k + 1)"
  shows "ulp32 x = 2 powr of_int (max (k - 23) (- 149))"
  unfolding ulp32_def exponent_eq[OF assms] ..

lemma f32_0: "f32 0 = 0"
  by (simp add: f32_def)

lemma f32_minus: "f32 (- x) = - f32 x"
  by (simp add: f32_def ulp32_minus rne_minus)

lemma f32_nonneg: "0 \<le> x \<Longrightarrow> 0 \<le> f32 x"
  unfolding f32_def using rne_ge[of 0 "x / ulp32 x"] ulp32_pos[of x]
  by (simp add: zero_le_mult_iff)

lemma f32_eval:
  assumes "2 powr of_int k \<le> \<bar>x\<bar>" "\<bar>x\<bar> < 2 powr of_int (k + 1)"
  shows "f32 x = of_int (rne (x / 2 powr of_int (max (k - 23) (- 149)))) * 2 powr of_int (max (k - 23) (- 149))"
proof -
  have "x \<noteq> 0" using assms(1) by (smt (verit) powr_gt_zero)
  then show ?thesis by (simp add: f32_def ulp32_eq[OF assms])
qed

text \<open>
  Binary32 numbers are fixed by the rounding, every rounded value is a binary32 number,
  and rounding does not cross a binary32 number: a bound that is one is kept.
\<close>

lemma grid_scaled:
  assumes "J \<le> j"
  shows "of_int m * 2 powr of_int j / 2 powr of_int J = (of_int (m * 2 ^ nat (j - J)) :: real)"
proof -
  have "(2::real) powr of_int j = 2 powr of_int (j - J) * 2 powr of_int J"
    by (simp flip: powr_add)
  moreover have "(2::real) powr of_int (j - J) = of_int (2 ^ nat (j - J))"
    using assms by (intro p2_int) simp
  ultimately show ?thesis by simp
qed

lemma grid_quotient:
  assumes "is_f32 y" "y \<noteq> 0"
  shows "\<exists>M. y / ulp32 y = of_int M"
proof -
  from assms obtain m j where mj: "- 149 \<le> j" "\<bar>m\<bar> \<le> 2 ^ 24" "y = of_int m * 2 powr of_int j"
    unfolding is_f32_def by blast
  define e where "e = \<lfloor>log 2 \<bar>y\<bar>\<rfloor>"
  define J where "J = max (e - 23) (- 149)"
  have u: "ulp32 y = 2 powr of_int J" by (simp add: ulp32_def e_def J_def)
  have lo: "2 powr of_int e \<le> \<bar>y\<bar>" unfolding e_def using exponent_bounds(1)[OF assms(2)] .
  have ay: "\<bar>y\<bar> = of_int \<bar>m\<bar> * 2 powr of_int j" by (simp add: mj(3) abs_mult)
  show ?thesis
  proof (cases "\<bar>m\<bar> = 2 ^ 24")
    case True
    have "\<bar>y\<bar> = 2 powr of_int (24 + j)"
      unfolding ay True p2_add by (simp add: powr_numeral)
    then have "e = 24 + j" unfolding e_def
      by (intro exponent_eq) (simp_all add: powr_add)
    then have J: "J = j + 1" using mj(1) by (simp add: J_def)
    have "y / 2 powr of_int J = of_int m * 2 powr of_int j / (2 powr of_int j * 2)"
      by (simp add: J mj(3) powr_add)
    also have "\<dots> = of_int m / 2" by simp
    also have "\<dots> = of_int (m div 2)"
    proof -
      have "even m" using True by (metis abs_minus_cancel abs_of_nonneg dvd_minus_iff even_numeral even_power abs_if zero_less_numeral)
      then show ?thesis by (metis real_of_int_div of_int_numeral)
    qed
    finally show ?thesis unfolding u by blast
  next
    case False
    then have "\<bar>m\<bar> < 2 ^ 24" using mj(2) by simp
    then have "of_int \<bar>m\<bar> < (2 powr of_int 24 :: real)"
      by (simp add: powr_numeral) 
    then have "\<bar>y\<bar> < 2 powr of_int (24 + j)"
      unfolding ay p2_add by simp
    with lo have "2 powr of_int e < (2 powr of_int (24 + j) :: real)" by linarith
    then have "real_of_int e < real_of_int (24 + j)" by (simp del: of_int_add)
    then have "e < 24 + j" by (simp only: of_int_less_iff)
    then have "J \<le> j" using mj(1) by (simp add: J_def)
    then have "of_int m * 2 powr of_int j / 2 powr of_int J = (of_int (m * 2 ^ nat (j - J)) :: real)"
      by (rule grid_scaled)
    then have "y / 2 powr of_int J = of_int (m * 2 ^ nat (j - J))" by (simp only: mj(3))
    then show ?thesis unfolding u by blast
  qed
qed

lemma f32_idem: "is_f32 y \<Longrightarrow> f32 y = y"
proof (cases "y = 0")
  case True then show ?thesis by (simp add: f32_0)
next
  case False
  assume "is_f32 y"
  then obtain M where M: "y / ulp32 y = of_int M" using grid_quotient False by blast
  then have "y = of_int M * ulp32 y" using ulp32_pos[of y] by (simp add: field_simps)
  then show ?thesis using False by (simp add: f32_def M rne_of_int)
qed

lemma is_f32_0: "is_f32 0"
  unfolding is_f32_def by (intro exI[of _ 0]) simp

lemma is_f32_minus: "is_f32 y \<Longrightarrow> is_f32 (- y)"
  unfolding is_f32_def
proof (elim exE conjE)
  fix m j assume "- 149 \<le> j" "\<bar>m\<bar> \<le> 2 ^ 24" "y = of_int m * 2 powr of_int (j::int)"
  then show "\<exists>m j. - 149 \<le> j \<and> \<bar>m\<bar> \<le> 2 ^ 24 \<and> - y = of_int m * 2 powr of_int j"
    by (intro exI[of _ "- m"] exI[of _ j]) simp
qed

lemma f32_is_f32: "is_f32 (f32 x)"
proof (cases "x = 0")
  case True then show ?thesis by (simp add: f32_0 is_f32_0)
next
  case False
  define e where "e = \<lfloor>log 2 \<bar>x\<bar>\<rfloor>"
  define J where "J = max (e - 23) (- 149)"
  have u: "ulp32 x = 2 powr of_int J" by (simp add: ulp32_def e_def J_def)
  have hi: "\<bar>x\<bar> < 2 powr of_int (e + 1)" unfolding e_def using exponent_bounds(2)[OF False] .
  have "e + 1 \<le> 24 + J" by (simp add: J_def)
  then have "(2::real) powr of_int (e + 1) \<le> 2 powr of_int (24 + J)" by (rule p2_mono)
  also have "\<dots> = 2 ^ 24 * 2 powr of_int J" unfolding p2_add by (simp add: powr_numeral)
  finally have "\<bar>x\<bar> < 2 ^ 24 * 2 powr of_int J" using hi by linarith
  then have "x < 2 ^ 24 * 2 powr of_int J" "- (2 ^ 24 * 2 powr of_int J) < x" by linarith+
  then have q: "x / 2 powr of_int J \<le> of_int (2 ^ 24)" "of_int (- (2 ^ 24)) \<le> x / 2 powr of_int J"
    by (simp_all add: field_simps)
  have "rne (x / 2 powr of_int J) \<le> 2 ^ 24" "- (2 ^ 24) \<le> rne (x / 2 powr of_int J)"
    using rne_le[OF q(1)] rne_ge[OF q(2)] by simp_all
  then have "\<bar>rne (x / 2 powr of_int J)\<bar> \<le> 2 ^ 24" by simp
  moreover have "- 149 \<le> J" by (simp add: J_def)
  moreover have "f32 x = of_int (rne (x / 2 powr of_int J)) * 2 powr of_int J"
    using False by (simp add: f32_def u)
  ultimately show ?thesis unfolding is_f32_def by blast
qed

lemma f32_le_grid_pos:
  assumes "is_f32 y" "0 < x" "x \<le> y"
  shows "f32 x \<le> y"
proof -
  have y0: "y \<noteq> 0" and x0: "x \<noteq> 0" using assms by simp_all
  obtain M where M: "y / ulp32 y = of_int M" using grid_quotient[OF assms(1) y0] by blast
  define Jx where "Jx = max (\<lfloor>log 2 \<bar>x\<bar>\<rfloor> - 23) (- 149)"
  define Jy where "Jy = max (\<lfloor>log 2 \<bar>y\<bar>\<rfloor> - 23) (- 149)"
  have ux: "ulp32 x = 2 powr of_int Jx" and uy: "ulp32 y = 2 powr of_int Jy"
    by (simp_all add: ulp32_def Jx_def Jy_def)
  have "\<lfloor>log 2 \<bar>x\<bar>\<rfloor> \<le> \<lfloor>log 2 \<bar>y\<bar>\<rfloor>" using assms by (intro exponent_mono) simp_all
  then have J: "Jx \<le> Jy" by (simp add: Jx_def Jy_def)
  have "y = of_int M * 2 powr of_int Jy" using M unfolding uy by (simp add: field_simps)
  then have "y / 2 powr of_int Jx = of_int (M * 2 ^ nat (Jy - Jx))"
    using grid_scaled[OF J, of M] by simp
  moreover have "x / 2 powr of_int Jx \<le> y / 2 powr of_int Jx"
    using assms(3) by (simp add: divide_right_mono)
  ultimately have "rne (x / 2 powr of_int Jx) \<le> M * 2 ^ nat (Jy - Jx)"
    by (intro rne_le) simp
  then have "real_of_int (rne (x / 2 powr of_int Jx)) \<le> of_int (M * 2 ^ nat (Jy - Jx))"
    by (simp only: of_int_le_iff)
  also have "\<dots> = y / 2 powr of_int Jx"
    using \<open>y / 2 powr of_int Jx = of_int (M * 2 ^ nat (Jy - Jx))\<close> by simp
  finally have "of_int (rne (x / 2 powr of_int Jx)) * 2 powr of_int Jx \<le> y"
    by (simp add: field_simps)
  then show ?thesis using x0 by (simp add: f32_def ux)
qed

lemma f32_le_grid:
  assumes "is_f32 y" "0 \<le> x" "x \<le> y"
  shows "f32 x \<le> y"
  using f32_le_grid_pos[OF assms(1)] assms(2,3) by (cases "x = 0") (simp_all add: f32_0)

lemma f32_abs: "\<bar>f32 x\<bar> = f32 \<bar>x\<bar>"
  using f32_nonneg[of x] f32_nonneg[of "- x"] by (cases "0 \<le> x") (simp_all add: f32_minus abs_if)

lemma f32_bound:
  assumes "is_f32 b" "\<bar>x\<bar> \<le> b"
  shows "\<bar>f32 x\<bar> \<le> b"
  unfolding f32_abs using assms by (intro f32_le_grid) simp_all

lemma is_f32_int:
  assumes "\<bar>k\<bar> \<le> 2 ^ 24"
  shows "is_f32 (of_int k)"
  unfolding is_f32_def using assms by (intro exI[of _ k] exI[of _ 0]) simp

lemma is_f32_p2:
  assumes "- 149 \<le> j"
  shows "is_f32 (2 powr of_int j)"
  unfolding is_f32_def using assms by (intro exI[of _ 1] exI[of _ j]) simp

lemma f32_int: "\<bar>k\<bar> \<le> 2 ^ 24 \<Longrightarrow> f32 (of_int k) = of_int k"
  by (intro f32_idem is_f32_int)

lemma f32_f32: "f32 (f32 x) = f32 x"
  by (intro f32_idem f32_is_f32)

text \<open>Powers of two and integers of at most 24 bits are binary32 numbers.\<close>

lemma is_f32_pow: "is_f32 (2 ^ n)"
proof -
  have "is_f32 (2 powr of_int (int n))" by (intro is_f32_p2) simp
  then show ?thesis by (simp add: powr_realpow)
qed

lemma f32_pow_bound: "\<bar>x\<bar> \<le> 2 ^ n \<Longrightarrow> \<bar>f32 x\<bar> \<le> 2 ^ n"
  by (intro f32_bound is_f32_pow)

lemma f32_numeral: "numeral n \<le> (2 ^ 24 :: int) \<Longrightarrow> f32 (numeral n) = numeral n"
  using f32_int[of "numeral n"] by simp

lemma f32_neg_numeral: "numeral n \<le> (2 ^ 24 :: int) \<Longrightarrow> f32 (- numeral n) = - numeral n"
  by (simp add: f32_minus f32_numeral)

lemma f32_1: "f32 1 = 1"
  using f32_int[of 1] by simp


section \<open>Clipping lemmas\<close>

lemma suthhodgman_three:
  "c3d_suthhodgman [a, b, c] =
     suth_step [a, b, c] (suth_step [a, b, c] (suth_step [a, b, c] [] 0) (Suc 0)) (Suc (Suc 0))"
proof -
  have "[0..<length [a, b, c]] = [0, Suc 0, Suc (Suc 0)]"
    by (simp add: upt_rec)
  then show ?thesis
    by (simp add: c3d_suthhodgman_def)
qed

text \<open>The output polygon for each of the eight inside/outside patterns of a triangle.\<close>

lemma suthhodgman_cases:
  "c3d_suthhodgman [a, b, c] =
     (if c3d_innear a then
        (if c3d_innear b then
           (if c3d_innear c then [b, c, a]
            else [b, c3d_nearintersect b c, c3d_nearintersect c a, a])
         else
           (if c3d_innear c then [c3d_nearintersect a b, c3d_nearintersect b c, c, a]
            else [c3d_nearintersect a b, c3d_nearintersect c a, a]))
      else
        (if c3d_innear b then
           (if c3d_innear c then [c3d_nearintersect a b, b, c, c3d_nearintersect c a]
            else [c3d_nearintersect a b, b, c3d_nearintersect b c])
         else
           (if c3d_innear c then [c3d_nearintersect b c, c, c3d_nearintersect c a]
            else [])))"
  by (simp add: suthhodgman_three suth_step_def Let_def)



lemma nearintersect_on_plane:
  assumes "c3d_innear A \<noteq> c3d_innear B"
  shows "z4 (clip (c3d_nearintersect A B)) + w4 (clip (c3d_nearintersect A B)) = 0"
proof -
  let ?Ad = "z4 (clip A) + w4 (clip A)" and ?Bd = "z4 (clip B) + w4 (clip B)"
  have ne: "?Ad - ?Bd \<noteq> 0"
    using assms by (auto simp: c3d_innear_def)
  have "z4 (clip (c3d_nearintersect A B)) + w4 (clip (c3d_nearintersect A B))
          = ?Ad + near_param A B * (?Bd - ?Ad)"
    by (simp add: c3d_nearintersect_def c3d_lerp_def algebra_simps)
  also have "\<dots> = ?Ad + (?Ad / (?Ad - ?Bd)) * (?Bd - ?Ad)"
    by (simp add: near_param_def Let_def)
  also have "\<dots> = 0"
    using ne by (simp add: field_simps)
  finally show ?thesis .
qed


lemma lerp_components:
  "x4 (clip (c3d_lerp A B t)) = lerp (x4 (clip A)) (x4 (clip B)) t \<and>
   y4 (clip (c3d_lerp A B t)) = lerp (y4 (clip A)) (y4 (clip B)) t \<and>
   z4 (clip (c3d_lerp A B t)) = lerp (z4 (clip A)) (z4 (clip B)) t \<and>
   w4 (clip (c3d_lerp A B t)) = lerp (w4 (clip A)) (w4 (clip B)) t \<and>
   x3 (space (c3d_lerp A B t)) = lerp (x3 (space A)) (x3 (space B)) t \<and>
   y3 (space (c3d_lerp A B t)) = lerp (y3 (space A)) (y3 (space B)) t \<and>
   z3 (space (c3d_lerp A B t)) = lerp (z3 (space A)) (z3 (space B)) t \<and>
   x3 (normal (c3d_lerp A B t)) = lerp (x3 (normal A)) (x3 (normal B)) t \<and>
   y3 (normal (c3d_lerp A B t)) = lerp (y3 (normal A)) (y3 (normal B)) t \<and>
   z3 (normal (c3d_lerp A B t)) = lerp (z3 (normal A)) (z3 (normal B)) t \<and>
   x2 (uv (c3d_lerp A B t)) = lerp (x2 (uv A)) (x2 (uv B)) t \<and>
   y2 (uv (c3d_lerp A B t)) = lerp (y2 (uv A)) (y2 (uv B)) t"
  by (simp add: c3d_lerp_def lerp_def algebra_simps)

text \<open>
  Claim C4.  Whenever the clipper computes an intersection (the edge \<open>A, B\<close> has exactly
  one end inside the near half-space), the parameter is \<open>t = Ad / (Ad - Bd)\<close> with
  \<open>Ad = A.z + A.w\<close> and \<open>Bd = B.z + B.w\<close>; each of the twelve components of the emitted
  vertex (clip position, world-space position, normal, uv) is \<open>lerp(A, B, t)\<close>; and the
  emitted vertex lies on the plane \<open>z + w = 0\<close>.
\<close>

theorem nearintersect_lerp_on_plane:
  assumes "c3d_innear A \<noteq> c3d_innear B"
  shows "near_param A B =
           (z4 (clip A) + w4 (clip A)) / ((z4 (clip A) + w4 (clip A)) - (z4 (clip B) + w4 (clip B))) \<and>
         (let R = c3d_nearintersect A B; t = near_param A B in
            x4 (clip R) = lerp (x4 (clip A)) (x4 (clip B)) t \<and>
            y4 (clip R) = lerp (y4 (clip A)) (y4 (clip B)) t \<and>
            z4 (clip R) = lerp (z4 (clip A)) (z4 (clip B)) t \<and>
            w4 (clip R) = lerp (w4 (clip A)) (w4 (clip B)) t \<and>
            x3 (space R) = lerp (x3 (space A)) (x3 (space B)) t \<and>
            y3 (space R) = lerp (y3 (space A)) (y3 (space B)) t \<and>
            z3 (space R) = lerp (z3 (space A)) (z3 (space B)) t \<and>
            x3 (normal R) = lerp (x3 (normal A)) (x3 (normal B)) t \<and>
            y3 (normal R) = lerp (y3 (normal A)) (y3 (normal B)) t \<and>
            z3 (normal R) = lerp (z3 (normal A)) (z3 (normal B)) t \<and>
            x2 (uv R) = lerp (x2 (uv A)) (x2 (uv B)) t \<and>
            y2 (uv R) = lerp (y2 (uv A)) (y2 (uv B)) t \<and>
            z4 (clip R) + w4 (clip R) = 0)"
proof -
  have p: "near_param A B =
          (z4 (clip A) + w4 (clip A)) / ((z4 (clip A) + w4 (clip A)) - (z4 (clip B) + w4 (clip B)))"
    by (simp add: near_param_def Let_def)
  have z: "z4 (clip (c3d_nearintersect A B)) + w4 (clip (c3d_nearintersect A B)) = 0"
    using assms by (rule nearintersect_on_plane)
  have l: "c3d_nearintersect A B = c3d_lerp A B (near_param A B)"
    by (simp add: c3d_nearintersect_def)
  show ?thesis
    unfolding Let_def using p z lerp_components [of A B "near_param A B"]
    by (simp only: l)
qed

theorem nearintersect_lerp_on_plane_witness:
  "c3d_innear ex_vex_in \<noteq> c3d_innear ex_vex_out \<and>
   near_param ex_vex_in ex_vex_out = 3 / 4 \<and>
   x4 (clip (c3d_nearintersect ex_vex_in ex_vex_out))
     = lerp (x4 (clip ex_vex_in)) (x4 (clip ex_vex_out)) (near_param ex_vex_in ex_vex_out) \<and>
   y2 (uv (c3d_nearintersect ex_vex_in ex_vex_out))
     = lerp (y2 (uv ex_vex_in)) (y2 (uv ex_vex_out)) (near_param ex_vex_in ex_vex_out) \<and>
   z4 (clip (c3d_nearintersect ex_vex_in ex_vex_out))
     + w4 (clip (c3d_nearintersect ex_vex_in ex_vex_out)) = 0"
proof -
  have h: "c3d_innear ex_vex_in \<noteq> c3d_innear ex_vex_out"
    by (simp add: c3d_innear_def ex_vex_in_def ex_vex_out_def)
  have np: "near_param ex_vex_in ex_vex_out = 3 / 4"
    by (simp add: near_param_def ex_vex_in_def ex_vex_out_def)
  from nearintersect_lerp_on_plane [OF h] h np show ?thesis
    unfolding Let_def by blast
qed

text \<open>
  Claim C3 (as amended).  Clipping one triangle against the near plane gives a polygon
  of 0, 3 or 4 vertices.  A triangle with all three vertices inside comes back as one
  triangle with the same corners and attributes in the same cyclic order, starting at
  the second corner: \<open>(vy, vz, vx)\<close>.  A triangle with all three vertices outside
  gives no triangle.
\<close>

theorem nearclip_counts:
  "length (c3d_suthhodgman (nearclip_in t matcam)) \<in> {0, 3, 4} \<and>
   (all_inside t matcam \<longrightarrow> c3d_nearclip t matcam = [tri_rotate t]) \<and>
   (all_outside t matcam \<longrightarrow> c3d_nearclip t matcam = [])"
  by (simp add: nearclip_in_def suthhodgman_cases all_inside_def all_outside_def
        c3d_nearclip_def Let_def tri_of_def tri_rotate_def mk_vex_def)

theorem nearclip_counts_witness:
  "all_inside ex_tri mat4_id \<and> c3d_nearclip ex_tri mat4_id = [tri_rotate ex_tri] \<and>
   all_outside ex_tri_behind mat4_id \<and> c3d_nearclip ex_tri_behind mat4_id = []"
proof -
  have a: "all_inside ex_tri mat4_id"
    by (simp add: nearclip_in_def all_inside_def c3d_innear_def mk_vex_def ex_tri_def
          mat4_id_def c3d_mat4vec4_def)
  have b: "all_outside ex_tri_behind mat4_id"
    by (simp add: nearclip_in_def all_outside_def c3d_innear_def mk_vex_def ex_tri_behind_def
          mat4_id_def c3d_mat4vec4_def)
  show ?thesis
    using a b nearclip_counts [of ex_tri mat4_id] nearclip_counts [of ex_tri_behind mat4_id]
    by blast
qed

text \<open>
  The record returned for an all-inside triangle is not the input record: the corners
  are rotated by one position.
\<close>

theorem nearclip_inside_counterexample:
  "all_inside ex_tri mat4_id \<and> c3d_nearclip ex_tri mat4_id \<noteq> [ex_tri]"
  by (simp add: nearclip_in_def suthhodgman_cases all_inside_def c3d_innear_def
        c3d_nearclip_def Let_def tri_of_def mk_vex_def ex_tri_def mat4_id_def c3d_mat4vec4_def)

section \<open>Backface culling\<close>

lemma backface_value:
  "c3d_backface t cpos \<longleftrightarrow> 0 \<le> backface_dot t cpos"
  by (simp add: c3d_backface_def backface_dot_def vec3sub_f32_def Let_def)

lemma cross_f32_swap:
  "x3 (c3d_vec3cross_f32 b a) = - x3 (c3d_vec3cross_f32 a b) \<and>
   y3 (c3d_vec3cross_f32 b a) = - y3 (c3d_vec3cross_f32 a b) \<and>
   z3 (c3d_vec3cross_f32 b a) = - z3 (c3d_vec3cross_f32 a b)"
proof -
  have s: "f32 (p - q) = - f32 (q - p)" for p q :: real
    using f32_minus [of "q - p"] by simp
  have "f32 (f32 (y3 b * z3 a) - f32 (z3 b * y3 a)) = - f32 (f32 (y3 a * z3 b) - f32 (z3 a * y3 b))"
    using s [of "f32 (z3 a * y3 b)" "f32 (y3 a * z3 b)"] by (simp add: mult.commute)
  moreover have "f32 (f32 (z3 b * x3 a) - f32 (x3 b * z3 a)) = - f32 (f32 (z3 a * x3 b) - f32 (x3 a * z3 b))"
    using s [of "f32 (x3 a * z3 b)" "f32 (z3 a * x3 b)"] by (simp add: mult.commute)
  moreover have "f32 (f32 (x3 b * y3 a) - f32 (y3 b * x3 a)) = - f32 (f32 (x3 a * y3 b) - f32 (y3 a * x3 b))"
    using s [of "f32 (y3 a * x3 b)" "f32 (x3 a * y3 b)"] by (simp add: mult.commute)
  ultimately show ?thesis
    unfolding c3d_vec3cross_f32_def by simp
qed

lemma dot_f32_negate:
  assumes "x3 m = - x3 n" "y3 m = - y3 n" "z3 m = - z3 n"
  shows "c3d_vec3dot_f32 m w = - c3d_vec3dot_f32 n w"
proof -
  have a: "f32 (- p - q) = - f32 (p + q)" for p q :: real
    using f32_minus [of "p + q"] by simp
  show ?thesis
    unfolding c3d_vec3dot_f32_def assms by (simp add: f32_minus a)
qed

lemma backface_dot_reverse:
  "backface_dot (tri_reverse t) cpos = - backface_dot t cpos"
  unfolding backface_dot_def
  using cross_f32_swap [of "vec3sub_f32 (vy t) (vx t)" "vec3sub_f32 (vz t) (vx t)"]
  by (simp add: tri_reverse_def dot_f32_negate)


text \<open>No overflow: magnitudes of the intermediate results for bounded coordinates.\<close>

lemma finite32_pow: "\<bar>x\<bar> \<le> 2 ^ n \<Longrightarrow> n < 128 \<Longrightarrow> finite32 x"
proof -
  assume a: "\<bar>x\<bar> \<le> 2 ^ n" and n: "n < 128"
  have "(2::real) ^ n < 2 ^ 128" using n by (intro power_strict_increasing) simp_all
  then show ?thesis using a unfolding finite32_def by linarith
qed

lemma f32_diff_bound:
  assumes "\<bar>a\<bar> \<le> 2 ^ n" "\<bar>b\<bar> \<le> 2 ^ n"
  shows "\<bar>f32 (a - b)\<bar> \<le> 2 ^ Suc n" "\<bar>f32 (a + b)\<bar> \<le> 2 ^ Suc n"
  using assms by (intro f32_pow_bound; simp)+

lemma f32_mult_bound:
  assumes "\<bar>a\<bar> \<le> 2 ^ p" "\<bar>b\<bar> \<le> 2 ^ q"
  shows "\<bar>f32 (a * b)\<bar> \<le> 2 ^ (p + q)"
proof -
  have "\<bar>a\<bar> * \<bar>b\<bar> \<le> 2 ^ p * 2 ^ q" using assms by (intro mult_mono) simp_all
  then show ?thesis by (intro f32_pow_bound) (simp add: abs_mult power_add)
qed

lemma vec3sub_f32_bound:
  assumes "coord_bound (2 ^ n) a" "coord_bound (2 ^ n) b"
  shows "coord_bound (2 ^ Suc n) (vec3sub_f32 a b)"
  using assms f32_diff_bound(1) unfolding coord_bound_def vec3sub_f32_def by simp

lemma cross_f32_bound:
  assumes "coord_bound (2 ^ p) a" "coord_bound (2 ^ q) b"
  shows "coord_bound (2 ^ Suc (p + q)) (c3d_vec3cross_f32 a b)"
  using assms f32_diff_bound(1) [OF f32_mult_bound f32_mult_bound, of _ p _ q _ _]
  unfolding coord_bound_def c3d_vec3cross_f32_def by simp

lemma coord_bound_finite:
  assumes "coord_bound (2 ^ n) a" "n < 128"
  shows "vec_finite a"
  using assms finite32_pow unfolding coord_bound_def vec_finite_def by blast

lemma cross_finite_bound:
  assumes a: "coord_bound (2 ^ p) a" and b: "coord_bound (2 ^ q) b" and n: "Suc (p + q) < 128"
  shows "cross_finite a b"
proof -
  have m: "finite32 (f32 (r * s))" if "\<bar>r\<bar> \<le> 2 ^ p" "\<bar>s\<bar> \<le> 2 ^ q" for r s
    using f32_mult_bound [OF that] n by (intro finite32_pow [of _ "p + q"]) simp_all
  have "vec_finite (c3d_vec3cross_f32 a b)"
    using cross_f32_bound [OF a b] n by (rule coord_bound_finite)
  then show ?thesis
    using a b unfolding cross_finite_def coord_bound_def by (simp add: m)
qed

lemma dot_finite_bound:
  assumes a: "coord_bound (2 ^ p) A" and b: "coord_bound (2 ^ q) B" and n: "Suc (Suc (p + q)) < 128"
  shows "dot_finite A B"
proof -
  have m: "\<bar>f32 (r * s)\<bar> \<le> 2 ^ (p + q)" if "\<bar>r\<bar> \<le> 2 ^ p" "\<bar>s\<bar> \<le> 2 ^ q" for r s
    using f32_mult_bound [OF that] .
  have x: "\<bar>f32 (x3 A * x3 B)\<bar> \<le> 2 ^ (p + q)" and y: "\<bar>f32 (y3 A * y3 B)\<bar> \<le> 2 ^ (p + q)"
   and z: "\<bar>f32 (z3 A * z3 B)\<bar> \<le> 2 ^ (p + q)"
    using a b unfolding coord_bound_def by (simp_all add: m)
  have xy: "\<bar>f32 (f32 (x3 A * x3 B) + f32 (y3 A * y3 B))\<bar> \<le> 2 ^ Suc (p + q)"
    using f32_diff_bound(2) [OF x y] .
  have "\<bar>f32 (z3 A * z3 B)\<bar> \<le> 2 ^ Suc (p + q)"
    using z by (rule order_trans) simp
  then have d: "\<bar>c3d_vec3dot_f32 A B\<bar> \<le> 2 ^ Suc (Suc (p + q))"
    unfolding c3d_vec3dot_f32_def using f32_diff_bound(2) [OF xy] by blast
  show ?thesis
    unfolding dot_finite_def
    using finite32_pow [OF x] finite32_pow [OF y] finite32_pow [OF z] finite32_pow [OF xy]
      finite32_pow [OF d] n by simp
qed

lemma backface_finite_bound:
  assumes "coord_bound (2 ^ 40) (vx t)" "coord_bound (2 ^ 40) (vy t)" "coord_bound (2 ^ 40) (vz t)"
      and "coord_bound (2 ^ 40) cpos"
  shows "backface_finite t cpos"
proof -
  have u: "coord_bound (2 ^ 41) (vec3sub_f32 (vy t) (vx t))"
   and v: "coord_bound (2 ^ 41) (vec3sub_f32 (vz t) (vx t))"
   and w: "coord_bound (2 ^ 41) (vec3sub_f32 (vx t) cpos)"
    using assms vec3sub_f32_bound [of 40] by simp_all
  have n: "coord_bound (2 ^ 83) (c3d_vec3cross_f32 (vec3sub_f32 (vy t) (vx t)) (vec3sub_f32 (vz t) (vx t)))"
    using cross_f32_bound [OF u v] by simp
  show ?thesis
    unfolding backface_finite_def Let_def
    using coord_bound_finite [OF u] coord_bound_finite [OF v] coord_bound_finite [OF w]
      cross_finite_bound [OF u v] dot_finite_bound [OF n w] by simp
qed

text \<open>The reverse winding has the same intermediate results up to order and sign.\<close>

lemma finite32_minus: "finite32 (- x) = finite32 x"
  by (simp add: finite32_def)

lemma cross_finite_swap: "cross_finite b a = cross_finite a b"
  unfolding cross_finite_def vec_finite_def using cross_f32_swap [of a b]
  by (auto simp: mult.commute finite32_minus)

lemma dot_finite_negate:
  assumes "x3 m = - x3 n" "y3 m = - y3 n" "z3 m = - z3 n"
  shows "dot_finite m w = dot_finite n w"
proof -
  have a: "f32 (- p - q) = - f32 (p + q)" for p q :: real
    using f32_minus [of "p + q"] by simp
  show ?thesis
    unfolding dot_finite_def c3d_vec3dot_f32_def assms by (simp add: f32_minus a finite32_minus)
qed

lemma backface_finite_reverse:
  "backface_finite (tri_reverse t) cpos = backface_finite t cpos"
  unfolding backface_finite_def Let_def
  using cross_f32_swap [of "vec3sub_f32 (vy t) (vx t)" "vec3sub_f32 (vz t) (vx t)"]
  by (auto simp: tri_reverse_def cross_finite_swap dot_finite_negate)


text \<open>
  Exact arithmetic: a camera position at which the exact value vanishes lies in the
  plane of a non-degenerate triangle, and the reverse winding negates the exact value.
\<close>

lemma span_of_orthogonal:
  fixes ux uy uz vx' vy' vz' dx dy dz :: real
  defines "nx \<equiv> uy * vz' - uz * vy'" and "ny \<equiv> uz * vx' - ux * vz'" and "nz \<equiv> ux * vy' - uy * vx'"
  assumes orth: "nx * dx + ny * dy + nz * dz = 0"
      and nz0: "nx \<noteq> 0 \<or> ny \<noteq> 0 \<or> nz \<noteq> 0"
  shows "\<exists>a b. dx = a * ux + b * vx' \<and> dy = a * uy + b * vy' \<and> dz = a * uz + b * vz'"
proof -
  define N where "N = nx * nx + ny * ny + nz * nz"
  have Npos: "N \<noteq> 0"
    using nz0 unfolding N_def by (metis add_nonneg_eq_0_iff mult_eq_0_iff zero_le_square add_nonneg_nonneg)
  define a where "a = ((dy * vz' - dz * vy') * nx + (dz * vx' - dx * vz') * ny + (dx * vy' - dy * vx') * nz) / N"
  define b where "b = ((uy * dz - uz * dy) * nx + (uz * dx - ux * dz) * ny + (ux * dy - uy * dx) * nz) / N"
  have ex: "N * dx = (a * N) * ux + (b * N) * vx' + (nx * dx + ny * dy + nz * dz) * nx"
    unfolding a_def b_def using Npos by (simp add: N_def nx_def ny_def nz_def) algebra
  have ey: "N * dy = (a * N) * uy + (b * N) * vy' + (nx * dx + ny * dy + nz * dz) * ny"
    unfolding a_def b_def using Npos by (simp add: N_def nx_def ny_def nz_def) algebra
  have ez: "N * dz = (a * N) * uz + (b * N) * vz' + (nx * dx + ny * dy + nz * dz) * nz"
    unfolding a_def b_def using Npos by (simp add: N_def nx_def ny_def nz_def) algebra
  have "N * dx = N * (a * ux + b * vx')" using ex unfolding orth by (simp add: algebra_simps)
  then have 1: "dx = a * ux + b * vx'" using Npos by simp
  have "N * dy = N * (a * uy + b * vy')" using ey unfolding orth by (simp add: algebra_simps)
  then have 2: "dy = a * uy + b * vy'" using Npos by simp
  have "N * dz = N * (a * uz + b * vz')" using ez unfolding orth by (simp add: algebra_simps)
  then have 3: "dz = a * uz + b * vz'" using Npos by simp
  show ?thesis using 1 2 3 by blast
qed


lemma dot_zero_on_plane:
  assumes nd: "tri_normal t \<noteq> \<lparr> x3 = 0, y3 = 0, z3 = 0 \<rparr>"
      and dz: "c3d_vec3dot (tri_normal t) (vec3sub (vx t) cpos) = 0"
  shows "on_tri_plane t cpos"
proof -
  let ?ux = "x3 (vy t) - x3 (vx t)" and ?uy = "y3 (vy t) - y3 (vx t)" and ?uz = "z3 (vy t) - z3 (vx t)"
  let ?vx = "x3 (vz t) - x3 (vx t)" and ?vy = "y3 (vz t) - y3 (vx t)" and ?vz = "z3 (vz t) - z3 (vx t)"
  let ?dx = "x3 cpos - x3 (vx t)" and ?dy = "y3 cpos - y3 (vx t)" and ?dz = "z3 cpos - z3 (vx t)"
  have orth: "(?uy * ?vz - ?uz * ?vy) * ?dx + (?uz * ?vx - ?ux * ?vz) * ?dy + (?ux * ?vy - ?uy * ?vx) * ?dz = 0"
    using dz by (simp add: tri_normal_def c3d_vec3cross_def c3d_vec3dot_def vec3sub_def algebra_simps)
  have nz: "?uy * ?vz - ?uz * ?vy \<noteq> 0 \<or> ?uz * ?vx - ?ux * ?vz \<noteq> 0 \<or> ?ux * ?vy - ?uy * ?vx \<noteq> 0"
    using nd by (auto simp: tri_normal_def c3d_vec3cross_def vec3sub_def)
  obtain a b where "?dx = a * ?ux + b * ?vx" "?dy = a * ?uy + b * ?vy" "?dz = a * ?uz + b * ?vz"
    using span_of_orthogonal [OF orth nz] by blast
  then have "x3 cpos = x3 (vx t) + a * ?ux + b * ?vx \<and> y3 cpos = y3 (vx t) + a * ?uy + b * ?vy \<and> z3 cpos = z3 (vx t) + a * ?uz + b * ?vz"
    by (simp add: algebra_simps)
  then show ?thesis unfolding on_tri_plane_def by blast
qed

lemma exact_reverse_dot:
  "c3d_vec3dot (tri_normal (tri_reverse t)) (vec3sub (vx (tri_reverse t)) cpos)
     = - c3d_vec3dot (tri_normal t) (vec3sub (vx t) cpos)"
  by (simp add: tri_normal_def tri_reverse_def c3d_vec3cross_def c3d_vec3dot_def vec3sub_def algebra_simps)

text \<open>
  Claim C5 (as amended).  \<^verbatim>\<open>c3d_backface\<close> culls exactly when the value it computes in
  binary32 for \<open>((vy - vx) \<times> (vz - vx)) \<bullet> (vx - cpos)\<close> is not negative.  As long as no
  intermediate result overflows, which is so whenever every coordinate has a magnitude of
  at most \<open>2^40\<close>, the reverse winding that keeps the first corner has no overflow either
  and gets exactly the negated value: it is culled exactly when the value is not
  positive, and exactly one of the two windings is culled exactly when the computed
  value is not zero.  In exact arithmetic the value is not zero for a non-degenerate
  triangle (non-zero face normal) and a camera position off the plane through its
  corners, and the reverse winding negates it.
\<close>

theorem backface_symmetry:
  assumes "backface_finite t cpos"
  shows "(c3d_backface t cpos \<longleftrightarrow> 0 \<le> backface_dot t cpos) \<and>
         backface_finite (tri_reverse t) cpos \<and>
         backface_dot (tri_reverse t) cpos = - backface_dot t cpos \<and>
         (c3d_backface (tri_reverse t) cpos \<longleftrightarrow> backface_dot t cpos \<le> 0) \<and>
         ((c3d_backface t cpos \<longleftrightarrow> \<not> c3d_backface (tri_reverse t) cpos) \<longleftrightarrow> backface_dot t cpos \<noteq> 0) \<and>
         (\<forall>t' cpos'. coord_bound (2 ^ 40) (vx t') \<and> coord_bound (2 ^ 40) (vy t') \<and>
                     coord_bound (2 ^ 40) (vz t') \<and> coord_bound (2 ^ 40) cpos'
                     \<longrightarrow> backface_finite t' cpos') \<and>
         (tri_normal t \<noteq> \<lparr> x3 = 0, y3 = 0, z3 = 0 \<rparr> \<and> \<not> on_tri_plane t cpos \<longrightarrow>
            c3d_vec3dot (tri_normal t) (vec3sub (vx t) cpos) \<noteq> 0 \<and>
            c3d_vec3dot (tri_normal (tri_reverse t)) (vec3sub (vx (tri_reverse t)) cpos)
              = - c3d_vec3dot (tri_normal t) (vec3sub (vx t) cpos))"
proof -
  have a: "c3d_backface t cpos \<longleftrightarrow> 0 \<le> backface_dot t cpos"
    by (rule backface_value)
  have b: "backface_finite (tri_reverse t) cpos"
    using assms by (simp add: backface_finite_reverse)
  have c: "backface_dot (tri_reverse t) cpos = - backface_dot t cpos"
    by (rule backface_dot_reverse)
  have d: "c3d_backface (tri_reverse t) cpos \<longleftrightarrow> backface_dot t cpos \<le> 0"
    by (simp add: backface_value c)
  have e: "(c3d_backface t cpos \<longleftrightarrow> \<not> c3d_backface (tri_reverse t) cpos) \<longleftrightarrow> backface_dot t cpos \<noteq> 0"
    unfolding a d by linarith
  have f: "\<forall>t' cpos'. coord_bound (2 ^ 40) (vx t') \<and> coord_bound (2 ^ 40) (vy t') \<and>
                     coord_bound (2 ^ 40) (vz t') \<and> coord_bound (2 ^ 40) cpos'
                     \<longrightarrow> backface_finite t' cpos'"
    using backface_finite_bound by blast
  have g: "tri_normal t \<noteq> \<lparr> x3 = 0, y3 = 0, z3 = 0 \<rparr> \<and> \<not> on_tri_plane t cpos \<longrightarrow>
            c3d_vec3dot (tri_normal t) (vec3sub (vx t) cpos) \<noteq> 0 \<and>
            c3d_vec3dot (tri_normal (tri_reverse t)) (vec3sub (vx (tri_reverse t)) cpos)
              = - c3d_vec3dot (tri_normal t) (vec3sub (vx t) cpos)"
    using dot_zero_on_plane exact_reverse_dot by blast
  show ?thesis using a b c d e f g by blast
qed

theorem backface_symmetry_witness:
  "backface_finite ex_tri \<lparr> x3 = 0, y3 = 0, z3 = 5 \<rparr> \<and>
   backface_dot ex_tri \<lparr> x3 = 0, y3 = 0, z3 = 5 \<rparr> = - 5 \<and>
   backface_dot (tri_reverse ex_tri) \<lparr> x3 = 0, y3 = 0, z3 = 5 \<rparr> = 5 \<and>
   \<not> c3d_backface ex_tri \<lparr> x3 = 0, y3 = 0, z3 = 5 \<rparr> \<and>
   c3d_backface (tri_reverse ex_tri) \<lparr> x3 = 0, y3 = 0, z3 = 5 \<rparr> \<and>
   coord_bound (2 ^ 40) (vx ex_tri) \<and> coord_bound (2 ^ 40) (vy ex_tri) \<and> coord_bound (2 ^ 40) (vz ex_tri) \<and>
   coord_bound (2 ^ 40) \<lparr> x3 = 0, y3 = 0, z3 = 5 \<rparr> \<and>
   tri_normal ex_tri \<noteq> \<lparr> x3 = 0, y3 = 0, z3 = 0 \<rparr> \<and>
   \<not> on_tri_plane ex_tri \<lparr> x3 = 0, y3 = 0, z3 = 5 \<rparr> \<and>
   c3d_vec3dot (tri_normal ex_tri) (vec3sub (vx ex_tri) \<lparr> x3 = 0, y3 = 0, z3 = 5 \<rparr>) = - 5"
proof -
  have cb: "coord_bound (2 ^ 40) (vx ex_tri)" "coord_bound (2 ^ 40) (vy ex_tri)"
      "coord_bound (2 ^ 40) (vz ex_tri)" "coord_bound (2 ^ 40) \<lparr> x3 = 0, y3 = 0, z3 = 5 \<rparr>"
    by (simp_all add: coord_bound_def ex_tri_def)
  have fin: "backface_finite ex_tri \<lparr> x3 = 0, y3 = 0, z3 = 5 \<rparr>"
    using cb by (rule backface_finite_bound)
  have v: "backface_dot ex_tri \<lparr> x3 = 0, y3 = 0, z3 = 5 \<rparr> = - 5"
    by (simp add: backface_dot_def vec3sub_f32_def c3d_vec3cross_f32_def c3d_vec3dot_f32_def
          ex_tri_def f32_0 f32_1 f32_numeral f32_neg_numeral)
  have nd: "tri_normal ex_tri \<noteq> \<lparr> x3 = 0, y3 = 0, z3 = 0 \<rparr>"
    by (simp add: tri_normal_def ex_tri_def c3d_vec3cross_def vec3sub_def)
  have off: "\<not> on_tri_plane ex_tri \<lparr> x3 = 0, y3 = 0, z3 = 5 \<rparr>"
    by (simp add: on_tri_plane_def ex_tri_def)
  have ex: "c3d_vec3dot (tri_normal ex_tri) (vec3sub (vx ex_tri) \<lparr> x3 = 0, y3 = 0, z3 = 5 \<rparr>) = - 5"
    by (simp add: tri_normal_def ex_tri_def c3d_vec3cross_def c3d_vec3dot_def vec3sub_def)
  show ?thesis
    using backface_symmetry [OF fin] fin v cb nd off ex by simp
qed

text \<open>
  The triangle \<open>ex_tri_slant\<close> seen from \<open>ex_eye_slant\<close>: the computed value is zero, the
  exact value is \<open>(1 + 2^-12) * 2^-24\<close>.
\<close>

lemma ex_side_roundings:
  "f32 ex_side = ex_side" "f32 ex_side_sq = ex_side_sq" "f32 (ex_side * ex_side) = ex_side_sq"
  unfolding ex_side_def ex_side_sq_def
  using f32_eval [of 0 "4097 / 4096"] f32_eval [of 0 "2049 / 2048"]
    f32_eval [of 0 "4097 / 4096 * (4097 / 4096)"]
  by (simp_all add: rne_def powr_neg_numeral Let_def)

lemma ex_slant_value: "backface_dot ex_tri_slant ex_eye_slant = 0"
  by (simp add: backface_dot_def vec3sub_f32_def c3d_vec3cross_f32_def c3d_vec3dot_f32_def
        ex_tri_slant_def ex_eye_slant_def f32_0 f32_1 f32_minus f32_f32 ex_side_roundings mult.commute)

lemma ex_slant_exact:
  "tri_normal ex_tri_slant \<noteq> \<lparr> x3 = 0, y3 = 0, z3 = 0 \<rparr> \<and>
   \<not> on_tri_plane ex_tri_slant ex_eye_slant \<and>
   0 < c3d_vec3dot (tri_normal ex_tri_slant) (vec3sub (vx ex_tri_slant) ex_eye_slant)"
proof -
  have n: "tri_normal ex_tri_slant \<noteq> \<lparr> x3 = 0, y3 = 0, z3 = 0 \<rparr>"
    by (simp add: tri_normal_def ex_tri_slant_def c3d_vec3cross_def vec3sub_def ex_side_def)
  have d: "0 < c3d_vec3dot (tri_normal ex_tri_slant) (vec3sub (vx ex_tri_slant) ex_eye_slant)"
    by (simp add: tri_normal_def ex_tri_slant_def ex_eye_slant_def c3d_vec3cross_def c3d_vec3dot_def
          vec3sub_def ex_side_def ex_side_sq_def)
  have "\<not> on_tri_plane ex_tri_slant ex_eye_slant"
    by (auto simp: on_tri_plane_def ex_tri_slant_def ex_eye_slant_def ex_side_def ex_side_sq_def)
  then show ?thesis using n d by simp
qed

text \<open>
  The claim fails in binary32.  The triangle \<open>ex_tri_slant\<close> is not degenerate, the
  camera position \<open>ex_eye_slant\<close> is off its plane and the exact value is positive; but
  the square of the leg is rounded, the two products of the dot product cancel, the
  computed value is zero for both windings, and both are culled.  The triangle
  \<open>ex_tri_tiny\<close> is not degenerate either, the camera position \<open>(0, 0, 1)\<close> is off its plane
  and the exact value is negative; but the products of the cross product underflow to
  zero, and again both windings are culled.
\<close>

theorem backface_symmetry_counterexample:
  "tri_normal ex_tri_slant \<noteq> \<lparr> x3 = 0, y3 = 0, z3 = 0 \<rparr> \<and>
   \<not> on_tri_plane ex_tri_slant ex_eye_slant \<and>
   0 < c3d_vec3dot (tri_normal ex_tri_slant) (vec3sub (vx ex_tri_slant) ex_eye_slant) \<and>
   backface_finite ex_tri_slant ex_eye_slant \<and>
   backface_dot ex_tri_slant ex_eye_slant = 0 \<and>
   c3d_backface ex_tri_slant ex_eye_slant \<and>
   c3d_backface (tri_reverse ex_tri_slant) ex_eye_slant \<and>
   tri_normal ex_tri_tiny \<noteq> \<lparr> x3 = 0, y3 = 0, z3 = 0 \<rparr> \<and>
   \<not> on_tri_plane ex_tri_tiny \<lparr> x3 = 0, y3 = 0, z3 = 1 \<rparr> \<and>
   c3d_vec3dot (tri_normal ex_tri_tiny) (vec3sub (vx ex_tri_tiny) \<lparr> x3 = 0, y3 = 0, z3 = 1 \<rparr>) < 0 \<and>
   backface_finite ex_tri_tiny \<lparr> x3 = 0, y3 = 0, z3 = 1 \<rparr> \<and>
   backface_dot ex_tri_tiny \<lparr> x3 = 0, y3 = 0, z3 = 1 \<rparr> = 0 \<and>
   c3d_backface ex_tri_tiny \<lparr> x3 = 0, y3 = 0, z3 = 1 \<rparr> \<and>
   c3d_backface (tri_reverse ex_tri_tiny) \<lparr> x3 = 0, y3 = 0, z3 = 1 \<rparr>"
proof -
  have p: "0 < ex_tiny" and b: "\<bar>ex_tiny\<bar> \<le> 2 ^ 40"
    by (simp_all add: ex_tiny_def)
  have r: "f32 ex_tiny = ex_tiny"
    unfolding ex_tiny_def
    using f32_eval [of "- 80" "1 / 2 ^ 80"] by (simp add: rne_def powr_neg_numeral Let_def)
  have u: "f32 (ex_tiny * ex_tiny) = 0"
    unfolding ex_tiny_def
    using f32_eval [of "- 160" "1 / 2 ^ 160"] by (simp add: rne_def powr_neg_numeral Let_def)
  have nd: "tri_normal ex_tri_tiny \<noteq> \<lparr> x3 = 0, y3 = 0, z3 = 0 \<rparr>"
    using p by (simp add: tri_normal_def ex_tri_tiny_def c3d_vec3cross_def vec3sub_def)
  have off: "\<not> on_tri_plane ex_tri_tiny \<lparr> x3 = 0, y3 = 0, z3 = 1 \<rparr>"
    by (simp add: on_tri_plane_def ex_tri_tiny_def)
  have ex: "c3d_vec3dot (tri_normal ex_tri_tiny) (vec3sub (vx ex_tri_tiny) \<lparr> x3 = 0, y3 = 0, z3 = 1 \<rparr>) < 0"
    using p by (simp add: tri_normal_def ex_tri_tiny_def c3d_vec3cross_def c3d_vec3dot_def vec3sub_def)
  have fin: "backface_finite ex_tri_tiny \<lparr> x3 = 0, y3 = 0, z3 = 1 \<rparr>"
    using b by (intro backface_finite_bound) (simp_all add: coord_bound_def ex_tri_tiny_def)
  have v: "backface_dot ex_tri_tiny \<lparr> x3 = 0, y3 = 0, z3 = 1 \<rparr> = 0"
    by (simp add: backface_dot_def vec3sub_f32_def c3d_vec3cross_f32_def c3d_vec3dot_f32_def
          ex_tri_tiny_def f32_0 f32_1 f32_minus r u)
  have w: "backface_dot (tri_reverse ex_tri_tiny) \<lparr> x3 = 0, y3 = 0, z3 = 1 \<rparr> = 0"
    using v by (simp add: backface_dot_reverse)
  have sfin: "backface_finite ex_tri_slant ex_eye_slant"
    by (intro backface_finite_bound)
       (simp_all add: coord_bound_def ex_tri_slant_def ex_eye_slant_def ex_side_def ex_side_sq_def)
  have sw: "backface_dot (tri_reverse ex_tri_slant) ex_eye_slant = 0"
    using ex_slant_value by (simp add: backface_dot_reverse)
  show ?thesis
    using nd off ex fin v w ex_slant_exact sfin ex_slant_value sw by (simp add: backface_value)
qed

section \<open>Texture sampling: properties\<close>

lemma C3D_CLAMP_unit: "0 \<le> C3D_CLAMP r 0 1 \<and> C3D_CLAMP r 0 1 \<le> 1"
  by (simp add: C3D_CLAMP_def)

text \<open>
  Truncation, the rounded factor \<open>1 - v\<close> and a rounded product with a factor in \<open>[0, 1]\<close>
  stay within their bounds; a conversion of an unsigned value of at most 24 bits is exact.
\<close>

lemma c_trunc_bounds:
  assumes "0 \<le> r" "r \<le> real n"
  shows "0 \<le> c_trunc r \<and> c_trunc r \<le> int n"
proof -
  have "\<lfloor>r\<rfloor> \<le> int n" using assms(2) by (simp add: floor_le_iff)
  then show ?thesis using assms(1) by (simp add: c_trunc_def)
qed

lemma f32_unit:
  assumes "0 \<le> r" "r \<le> 1"
  shows "0 \<le> f32 r \<and> f32 r \<le> 1"
proof -
  have "is_f32 1" using is_f32_int[of 1] by simp
  then show ?thesis using f32_nonneg[OF assms(1)] f32_le_grid[OF _ assms] by simp
qed

lemma f32_scaled:
  assumes "0 \<le> r" "r \<le> 1" "0 \<le> x"
  shows "0 \<le> f32 (r * f32 x) \<and> f32 (r * f32 x) \<le> f32 x"
proof -
  have x: "0 \<le> f32 x" using assms(3) by (rule f32_nonneg)
  have "r * f32 x \<le> 1 * f32 x" using assms(2) x by (intro mult_right_mono)
  then have "f32 (r * f32 x) \<le> f32 x"
    using assms(1) x by (intro f32_le_grid f32_is_f32) simp_all
  moreover have "0 \<le> f32 (r * f32 x)" using assms(1) x by (intro f32_nonneg) simp
  ultimately show ?thesis by simp
qed

lemma f32_uint_exact:
  assumes "unat (w :: 32 word) \<le> 2 ^ 24"
  shows "f32 (real (unat w)) = real (unat w)"
proof -
  have "\<bar>int (unat w)\<bar> \<le> 2 ^ 24" using assms by (simp add: nat_le_iff of_nat_le_iff[where ?'a = int, symmetric] del: of_nat_le_iff)
  then show ?thesis using f32_int[of "int (unat w)"] by simp
qed

lemma unat_pred: "1 \<le> unat (w :: 32 word) \<Longrightarrow> unat (w - 1) = unat w - 1"
  by (metis unat_minus_one unat_eq_zero not_one_le_zero zero_neq_one unat_0 )

lemma sint_small: "0 \<le> k \<Longrightarrow> k < 2 ^ 31 \<Longrightarrow> sint (word_of_int k :: 32 word) = k"
  by (simp add: sint_sbintrunc' signed_take_bit_int_eq_self)

lemma tex_index_exact:
  assumes W: "1 \<le> unat (width tex)" and H: "1 \<le> unat (height tex)"
      and fit: "unat (width tex) * unat (height tex) \<le> 2 ^ 31"
      and cw: "f32 (real (unat (width tex - 1))) \<le> real (unat (width tex - 1))"
      and ch: "f32 (real (unat (height tex - 1))) \<le> real (unat (height tex - 1))"
  shows "\<exists>tx ty. 0 \<le> tx \<and> tx < int (unat (width tex)) \<and> 0 \<le> ty \<and> ty < int (unat (height tex)) \<and>
            tex_index tex u v = ty * int (unat (width tex)) + tx"
proof -
  define tx where "tx = c_trunc (f32 (C3D_CLAMP u 0 1 * f32 (real (unat (width tex - 1)))))"
  define ty where "ty = c_trunc (f32 (f32 (1 - C3D_CLAMP v 0 1) * f32 (real (unat (height tex - 1)))))"
  have "0 \<le> f32 (C3D_CLAMP u 0 1 * f32 (real (unat (width tex - 1)))) \<and>
        f32 (C3D_CLAMP u 0 1 * f32 (real (unat (width tex - 1)))) \<le> real (unat (width tex - 1))"
    using f32_scaled [OF conjunct1 [OF C3D_CLAMP_unit] conjunct2 [OF C3D_CLAMP_unit] of_nat_0_le_iff,
            of u "unat (width tex - 1)"] cw
    by linarith
  then have tx: "0 \<le> tx \<and> tx \<le> int (unat (width tex)) - 1"
    using c_trunc_bounds [of _ "unat (width tex - 1)"] W by (simp add: tx_def unat_pred)
  have "0 \<le> f32 (1 - C3D_CLAMP v 0 1) \<and> f32 (1 - C3D_CLAMP v 0 1) \<le> 1"
    using C3D_CLAMP_unit [of v] by (intro f32_unit) simp_all
  then have "0 \<le> f32 (f32 (1 - C3D_CLAMP v 0 1) * f32 (real (unat (height tex - 1)))) \<and>
        f32 (f32 (1 - C3D_CLAMP v 0 1) * f32 (real (unat (height tex - 1)))) \<le> real (unat (height tex - 1))"
    using f32_scaled [OF _ _ of_nat_0_le_iff, of "f32 (1 - C3D_CLAMP v 0 1)" "unat (height tex - 1)"] ch
    by linarith
  then have ty: "0 \<le> ty \<and> ty \<le> int (unat (height tex)) - 1"
    using c_trunc_bounds [of _ "unat (height tex - 1)"] H by (simp add: ty_def unat_pred)
  have "ty * int (unat (width tex)) \<le> (int (unat (height tex)) - 1) * int (unat (width tex))"
    using ty by (intro mult_right_mono) simp_all
  then have up: "ty * int (unat (width tex)) + tx < int (unat (width tex)) * int (unat (height tex))"
    using tx by (simp add: algebra_simps)
  have "int (unat (width tex)) * int (unat (height tex)) \<le> 2 ^ 31"
    using fit by (metis of_nat_mult of_nat_le_iff of_nat_numeral of_nat_power)
  then have lt: "ty * int (unat (width tex)) + tx < 2 ^ 31" using up by linarith
  have ge: "0 \<le> ty * int (unat (width tex)) + tx" using tx ty by simp
  have "(word_of_int ty * width tex + word_of_int tx :: 32 word)
          = word_of_int (ty * int (unat (width tex)) + tx)"
    by simp
  then have "tex_index tex u v = ty * int (unat (width tex)) + tx"
    using sint_small [OF ge lt] by (simp add: tex_index_def Let_def tx_def ty_def)
  then show ?thesis using tx ty by (intro exI[of _ tx] exI[of _ ty]) simp
qed

lemma clamp_color_unit:
  "0 \<le> x3 (clamp_color c) \<and> x3 (clamp_color c) \<le> 1 \<and>
   0 \<le> y3 (clamp_color c) \<and> y3 (clamp_color c) \<le> 1 \<and>
   0 \<le> z3 (clamp_color c) \<and> z3 (clamp_color c) \<le> 1"
  by (simp add: clamp_color_def C3D_CLAMP_unit)

text \<open>
  Claim C9.  Sampling a texture whose sample data is absent (\<^verbatim>\<open>tex->data == NULL\<close>)
  returns opaque white \<open>(1, 1, 1)\<close> for every pair of coordinates.
\<close>

theorem texsample_absent_white:
  assumes "data tex = None"
  shows "c3d_texsample tex u v = Inr \<lparr> x3 = 1, y3 = 1, z3 = 1 \<rparr>"
  using assms by (simp add: c3d_texsample_def)

theorem texsample_absent_white_witness:
  "data ex_tex_absent = None \<and> c3d_texsample ex_tex_absent (7 / 2) (- 3) = Inr \<lparr> x3 = 1, y3 = 1, z3 = 1 \<rparr>"
proof -
  have h: "data ex_tex_absent = None" by (simp add: ex_tex_absent_def)
  show ?thesis using h texsample_absent_white [OF h, of "7 / 2" "- 3"] by simp
qed

text \<open>
  Claim C10 (as amended).  For a texture with present data, width and height at least 1,
  \<open>width * height \<le> 2^31\<close>, and \<open>width - 1\<close> and \<open>height - 1\<close> not rounded up by their
  conversion to \<^verbatim>\<open>float\<close>, and any \<open>u\<close> and \<open>v\<close>: the clamped coordinates lie in \<open>[0, 1]\<close>,
  the index \<open>tex_y * width + tex_x\<close> lies in \<open>[0, width * height)\<close>, and when the data holds
  \<open>width * height\<close> samples the sampler returns a colour whose components lie in \<open>[0, 1]\<close>.
  The conversion is exact, and so does not round up, for every value up to \<open>2^24\<close>.
\<close>

theorem texsample_in_bounds:
  assumes "data tex = Some samples"
      and "1 \<le> unat (width tex)" and "1 \<le> unat (height tex)"
      and "unat (width tex) * unat (height tex) \<le> 2 ^ 31"
      and "f32 (real (unat (width tex - 1))) \<le> real (unat (width tex - 1))"
      and "f32 (real (unat (height tex - 1))) \<le> real (unat (height tex - 1))"
  shows "0 \<le> C3D_CLAMP u 0 1 \<and> C3D_CLAMP u 0 1 \<le> 1 \<and> 0 \<le> C3D_CLAMP v 0 1 \<and> C3D_CLAMP v 0 1 \<le> 1 \<and>
         0 \<le> tex_index tex u v \<and> tex_index tex u v < int (unat (width tex) * unat (height tex)) \<and>
         (length samples = unat (width tex) * unat (height tex) \<longrightarrow>
            (\<exists>c. c3d_texsample tex u v = Inr c \<and>
                 0 \<le> x3 c \<and> x3 c \<le> 1 \<and> 0 \<le> y3 c \<and> y3 c \<le> 1 \<and> 0 \<le> z3 c \<and> z3 c \<le> 1)) \<and>
         (\<forall>w :: 32 word. unat w \<le> 2 ^ 24 \<longrightarrow> f32 (real (unat w)) = real (unat w))"
proof -
  obtain tx ty where t: "0 \<le> tx" "tx < int (unat (width tex))" "0 \<le> ty" "ty < int (unat (height tex))"
      and ix: "tex_index tex u v = ty * int (unat (width tex)) + tx"
    using tex_index_exact [OF assms(2-6)] by blast
  have "ty * int (unat (width tex)) \<le> (int (unat (height tex)) - 1) * int (unat (width tex))"
    using t by (intro mult_right_mono) simp_all
  then have "ty * int (unat (width tex)) + tx < int (unat (width tex)) * int (unat (height tex))"
    using t by (simp add: algebra_simps)
  then have b: "0 \<le> tex_index tex u v \<and> tex_index tex u v < int (unat (width tex) * unat (height tex))"
    using t ix by simp
  have s: "length samples = unat (width tex) * unat (height tex) \<longrightarrow>
             c3d_texsample tex u v = Inr (clamp_color (samples ! nat (tex_index tex u v)))"
    using b assms(1) by (simp add: c3d_texsample_def Let_def)
  show ?thesis
    using b s C3D_CLAMP_unit [of u] C3D_CLAMP_unit [of v] clamp_color_unit f32_uint_exact by blast
qed

theorem texsample_in_bounds_witness:
  "data ex_tex_2x2 \<noteq> None \<and> 1 \<le> unat (width ex_tex_2x2) \<and> 1 \<le> unat (height ex_tex_2x2) \<and>
   unat (width ex_tex_2x2) * unat (height ex_tex_2x2) \<le> 2 ^ 31 \<and>
   f32 (real (unat (width ex_tex_2x2 - 1))) \<le> real (unat (width ex_tex_2x2 - 1)) \<and>
   f32 (real (unat (height ex_tex_2x2 - 1))) \<le> real (unat (height ex_tex_2x2 - 1)) \<and>
   0 \<le> tex_index ex_tex_2x2 5 (- 2) \<and>
   tex_index ex_tex_2x2 5 (- 2) < int (unat (width ex_tex_2x2) * unat (height ex_tex_2x2)) \<and>
   tex_index ex_tex_2x2 5 (- 2) = 3 \<and>
   c3d_texsample ex_tex_2x2 5 (- 2) = Inr \<lparr> x3 = 1, y3 = 1 / 2, z3 = 0 \<rparr> \<and>
   unat (16777216 :: 32 word) \<le> 2 ^ 24 \<and> f32 (real (unat (16777216 :: 32 word))) = real (unat (16777216 :: 32 word))"
proof -
  have d: "data ex_tex_2x2 = Some [\<lparr> x3 = 1, y3 = 0, z3 = 0 \<rparr>, \<lparr> x3 = 0, y3 = 1, z3 = 0 \<rparr>,
                               \<lparr> x3 = 0, y3 = 0, z3 = 1 \<rparr>, \<lparr> x3 = 2, y3 = 1 / 2, z3 = - 1 \<rparr>]"
    by (simp add: ex_tex_2x2_def)
  have w: "1 \<le> unat (width ex_tex_2x2)" and h: "1 \<le> unat (height ex_tex_2x2)"
    by (simp_all add: ex_tex_2x2_def)
  have f: "unat (width ex_tex_2x2) * unat (height ex_tex_2x2) \<le> 2 ^ 31"
    by (simp add: ex_tex_2x2_def)
  have cw: "f32 (real (unat (width ex_tex_2x2 - 1))) \<le> real (unat (width ex_tex_2x2 - 1))"
   and ch: "f32 (real (unat (height ex_tex_2x2 - 1))) \<le> real (unat (height ex_tex_2x2 - 1))"
    by (simp_all add: ex_tex_2x2_def f32_1)
  have i: "tex_index ex_tex_2x2 5 (- 2) = 3"
    by (simp add: tex_index_def ex_tex_2x2_def C3D_CLAMP_def c_trunc_def f32_1)
  have s: "c3d_texsample ex_tex_2x2 5 (- 2) = Inr \<lparr> x3 = 1, y3 = 1 / 2, z3 = 0 \<rparr>"
    by (simp add: c3d_texsample_def d i clamp_color_def C3D_CLAMP_def)
  have n: "unat (16777216 :: 32 word) \<le> 2 ^ 24" by simp
  show ?thesis
    using texsample_in_bounds [OF d w h f cw ch, of 5 "- 2"] d w h f cw ch i s n
    by (simp add: f32_numeral)
qed

text \<open>
  Without the condition on the conversion the index can leave the range although
  \<open>width * height \<le> 2^31\<close>: for a one-row texture of width \<open>2^24 + 4\<close> the conversion rounds
  \<open>width - 1\<close> up to \<open>width\<close>, and \<open>u = 1\<close> reads one element past the end of the row.  Without
  the bound on \<open>width * height\<close> it can leave the range although both conversions are
  exact: for a \<open>65536 \<times> 65536\<close> texture the last row starts at \<open>65535 * 65536 \<ge> 2^31\<close>,
  which the \<^verbatim>\<open>int index\<close> holds as a negative number.
\<close>

lemma f32_wide: "f32 16777219 = 16777220" "f32 16777220 = 16777220"
  using f32_eval[of 24 16777219] f32_eval[of 24 16777220] by (simp_all add: rne_def powr_numeral Let_def)

theorem texsample_index_counterexample:
  "data ex_tex_wide \<noteq> None \<and> 1 \<le> unat (width ex_tex_wide) \<and> 1 \<le> unat (height ex_tex_wide) \<and>
   unat (width ex_tex_wide) * unat (height ex_tex_wide) \<le> 2 ^ 31 \<and>
   tex_index ex_tex_wide 1 0 = 16777220 \<and>
   int (unat (width ex_tex_wide) * unat (height ex_tex_wide)) = 16777220 \<and>
   c3d_texsample ex_tex_wide 1 0 = Inl OutOfBounds \<and>
   data ex_tex_huge \<noteq> None \<and> 1 \<le> unat (width ex_tex_huge) \<and> 1 \<le> unat (height ex_tex_huge) \<and>
   f32 (real (unat (width ex_tex_huge - 1))) = real (unat (width ex_tex_huge - 1)) \<and>
   f32 (real (unat (height ex_tex_huge - 1))) = real (unat (height ex_tex_huge - 1)) \<and>
   tex_index ex_tex_huge 0 0 = - 65536 \<and>
   c3d_texsample ex_tex_huge 0 0 = Inl OutOfBounds"
proof -
  have i: "tex_index ex_tex_wide 1 0 = 16777220"
    by (simp add: tex_index_def ex_tex_wide_def C3D_CLAMP_def c_trunc_def f32_wide f32_0 f32_1)
  have j: "tex_index ex_tex_huge 0 0 = - 65536"
    by (simp add: tex_index_def ex_tex_huge_def C3D_CLAMP_def c_trunc_def f32_0 f32_1 f32_numeral)
  show ?thesis
    using i j by (simp add: c3d_texsample_def ex_tex_huge_def ex_tex_wide_def f32_numeral)
qed

section \<open>Shading: properties\<close>

text \<open>
  What one lit light adds to the diffuse accumulator: \<open>Kd \<odot> colour \<cdot> brightness\<close>, with
  neither \<open>N \<bullet> L\<close> nor the attenuation as a factor.
\<close>

lemma bphong_light_diffuse_gain:
  assumes "light_ndotl nrm spc L > 0" and "light_dist spc L \<le> radius L"
  shows "fst (bphong_light d nrm spc mt acc L) =
           \<lparr> x3 = x3 (fst acc) + x3 (diffuse_color mt) * x3 (color L) * brightness L,
             y3 = y3 (fst acc) + y3 (diffuse_color mt) * y3 (color L) * brightness L,
             z3 = z3 (fst acc) + z3 (diffuse_color mt) * z3 (color L) * brightness L \<rparr>"
  using assms
  by (auto simp add: bphong_light_def light_ndotl_def light_dist_def to_light_def Let_def
        split: if_splits)

lemma ex_normalize: "c3d_vec3normalize \<lparr> x3 = 3, y3 = 0, z3 = 4 \<rparr> = \<lparr> x3 = 3 / 5, y3 = 0, z3 = 4 / 5 \<rparr>"
  by (simp add: c3d_vec3normalize_def)

lemma ex_half: "c3d_vec3normalize \<lparr> x3 = 6 / 5, y3 = 0, z3 = 8 / 5 \<rparr> = \<lparr> x3 = 3 / 5, y3 = 0, z3 = 4 / 5 \<rparr>"
proof -
  have "((6 / 5 :: real))\<^sup>2 + (8 / 5)\<^sup>2 = 2\<^sup>2" by (simp add: power2_eq_square)
  then have "sqrt (((6 / 5 :: real))\<^sup>2 + 0\<^sup>2 + (8 / 5)\<^sup>2) = 2" by simp
  then show ?thesis by (simp add: c3d_vec3normalize_def)
qed

text \<open>
  Claim C1.  The claim: a light within its radius and with \<open>N \<bullet> L > 0\<close> adds
  \<open>Kd \<odot> colour \<cdot> brightness \<cdot> (N \<bullet> L)\<close> to the diffuse accumulator, without attenuation,
  and \<open>Ks \<odot> colour \<cdot> brightness \<cdot> (N \<bullet> H)^shininess \<cdot> a\<close> with
  \<open>a = 1 / (1 + (dist / radius)\<^sup>2)\<close> to the specular one.  At the sample below the light
  is at distance 5 within radius 10 and \<open>N \<bullet> L = 4/5\<close>, so the claimed diffuse gain is
  \<open>1/2 \<cdot> 1 \<cdot> 1 \<cdot> 4/5 = 2/5\<close> per channel.  The code returns \<open>1/2\<close>: the factor
  \<open>N \<bullet> L\<close> is missing.  The specular term is as claimed:
  \<open>1 \<cdot> (4/5)^1 \<cdot> a = 16/25\<close> with \<open>a = 1 / (1 + (5/10)\<^sup>2) = 4/5\<close>.
\<close>

theorem bphong_diffuse_ignores_ndotl:
  "light_ndotl ex_up vec3_zero ex_light = 4 / 5 \<and>
   light_dist vec3_zero ex_light = 5 \<and> radius ex_light = 10 \<and>
   c3d_bphongshade ex_display ex_up vec3_zero ex_material =
     (\<lparr> x3 = 1 / 5, y3 = 1 / 5, z3 = 1 / 5 \<rparr>,
      \<lparr> x3 = 1 / 2, y3 = 1 / 2, z3 = 1 / 2 \<rparr>,
      \<lparr> x3 = 16 / 25, y3 = 16 / 25, z3 = 16 / 25 \<rparr>)"
proof -
  have l: "bphong_light ex_display ex_up vec3_zero ex_material (vec3_zero, vec3_zero) ex_light
             = (\<lparr> x3 = 1 / 2, y3 = 1 / 2, z3 = 1 / 2 \<rparr>, \<lparr> x3 = 16 / 25, y3 = 16 / 25, z3 = 16 / 25 \<rparr>)"
    by (simp add: bphong_light_def Let_def ex_light_def ex_material_def ex_display_def ex_cam_def
          ex_up_def vec3_zero_def ex_normalize ex_half cmax_def c3d_vec3dot_def powf_def)
  have ls: "lights ex_display = [ex_light]" by (simp add: ex_display_def)
  have am: "ambient_color ex_material = \<lparr> x3 = 1 / 5, y3 = 1 / 5, z3 = 1 / 5 \<rparr>"
    by (simp add: ex_material_def)
  have sh: "c3d_bphongshade ex_display ex_up vec3_zero ex_material =
     (\<lparr> x3 = 1 / 5, y3 = 1 / 5, z3 = 1 / 5 \<rparr>,
      \<lparr> x3 = 1 / 2, y3 = 1 / 2, z3 = 1 / 2 \<rparr>,
      \<lparr> x3 = 16 / 25, y3 = 16 / 25, z3 = 16 / 25 \<rparr>)"
    by (simp add: c3d_bphongshade_def ls l am Let_def clamp_color_def C3D_CLAMP_def)
  have nl: "light_ndotl ex_up vec3_zero ex_light = 4 / 5"
    by (simp add: light_ndotl_def to_light_def ex_light_def vec3_zero_def ex_normalize cmax_def
          c3d_vec3dot_def ex_up_def)
  have di: "light_dist vec3_zero ex_light = 5"
    by (simp add: light_dist_def to_light_def ex_light_def vec3_zero_def)
  have ra: "radius ex_light = 10" by (simp add: ex_light_def)
  show ?thesis using sh nl di ra by simp
qed

section \<open>Pixel colour: properties\<close>






text \<open>
  Whenever the pixel step changes the buffers, it writes the glyph \<^verbatim>\<open>C3D_PXCHAR\<close>, a
  depth, and the colour \<open>pixel_color\<close> computes for the interpolated attributes.
\<close>

lemma rasterize_px_writes:
  assumes "rasterize_px d v0 v1 v2 w0 w1 w2 t mt y (Inr bufs) x = Inr bufs'" and "bufs' \<noteq> bufs"
  shows "\<exists>nrm spc u v col z. pixel_color d mt nrm spc u v = Inr col \<and>
           bufs' = \<lparr> buffer = put (buffer bufs) (nat y) (nat x) C3D_PXCHAR,
                     colorBuffer = put (colorBuffer bufs) (nat y) (nat x) col,
                     depthBuffer = put (depthBuffer bufs) (nat y) (nat x) (Some z) \<rparr>"
  using assms unfolding rasterize_px_def Let_def
  by (simp split: if_splits sum.splits) blast







section \<open>Clip-space \<open>w\<close> after near-plane clipping\<close>



























section \<open>Smooth normals: properties\<close>

lemma smooth_tris_length: "length (smooth_tris ts) = length ts"
  by (simp add: smooth_tris_def)

lemma smooth_tris_nth:
  "i < length ts \<Longrightarrow> smooth_tris ts ! i =
     write_normals (bucket_normals ts) (snd (unique_positions ts)) ts i"
  by (simp add: smooth_tris_def)

lemma smooth_tris_corners:
  assumes "i < length ts"
  shows "vx (smooth_tris ts ! i) = vx (ts ! i) \<and> vy (smooth_tris ts ! i) = vy (ts ! i) \<and>
         vz (smooth_tris ts ! i) = vz (ts ! i)"
  using assms by (simp add: smooth_tris_nth write_normals_def)

lemma smooth_tris_positions: "positions_of (smooth_tris ts) = positions_of ts"
proof -
  have "map (\<lambda>t. [vx t, vy t, vz t]) (smooth_tris ts) = map (\<lambda>t. [vx t, vy t, vz t]) ts"
    by (rule nth_equalityI) (simp_all add: smooth_tris_length smooth_tris_corners)
  then show ?thesis by (simp add: positions_of_def)
qed

lemma smooth_tris_unique: "unique_positions (smooth_tris ts) = unique_positions ts"
  by (simp add: unique_positions_def smooth_tris_positions)

lemma smooth_tris_face_normal:
  "i < length ts \<Longrightarrow> face_normal (smooth_tris ts ! i) = face_normal (ts ! i)"
  by (simp add: face_normal_def smooth_tris_corners)

lemma smooth_tris_sums: "bucket_sums (smooth_tris ts) = bucket_sums ts"
proof -
  have "foldl (accumulate_step (smooth_tris ts) mu) z [0..<length ts]
          = foldl (accumulate_step ts mu) z [0..<length ts]" for mu z
    by (rule foldl_cong) (simp_all add: accumulate_step_def smooth_tris_face_normal)
  then show ?thesis
    by (simp add: bucket_sums_def smooth_tris_unique smooth_tris_length)
qed

lemma smooth_tris_normals: "bucket_normals (smooth_tris ts) = bucket_normals ts"
  by (simp add: bucket_normals_def smooth_tris_sums)

lemma smooth_tris_idem: "smooth_tris (smooth_tris ts) = smooth_tris ts"
proof (rule nth_equalityI)
  show "length (smooth_tris (smooth_tris ts)) = length (smooth_tris ts)"
    by (simp add: smooth_tris_length)
next
  fix i assume "i < length (smooth_tris (smooth_tris ts))"
  then have i: "i < length ts" by (simp add: smooth_tris_length)
  then have "smooth_tris (smooth_tris ts) ! i =
               write_normals (bucket_normals ts) (snd (unique_positions ts)) (smooth_tris ts) i"
    by (simp add: smooth_tris_nth smooth_tris_length smooth_tris_normals smooth_tris_unique)
  also have "\<dots> = smooth_tris ts ! i"
    using i by (simp add: write_normals_def smooth_tris_nth)
  finally show "smooth_tris (smooth_tris ts) ! i = smooth_tris ts ! i" .
qed

text \<open>
  The pass on a mesh of one triangle in the plane \<open>z = 0\<close> whose normals are absent
  (zero, as the loader writes them): all three corners receive the face normal
  \<open>(0, 0, 1)\<close>.
\<close>

lemma smooth_tris_example:
  "smooth_tris [ex_tri_flat] = [ex_tri]"
proof -
  let ?t = "ex_tri_flat"
  have u: "unique_positions [?t] =
             ([\<lparr> x3 = 0, y3 = 0, z3 = 0 \<rparr>, \<lparr> x3 = 1, y3 = 0, z3 = 0 \<rparr>, \<lparr> x3 = 0, y3 = 1, z3 = 0 \<rparr>], [0, 1, 2])"
    by (simp add: unique_positions_def positions_of_def unique_step_def near_pos_def ex_tri_def
          ex_tri_flat_def)
  have f: "face_normal ?t = \<lparr> x3 = 0, y3 = 0, z3 = 1 \<rparr>"
    by (simp add: face_normal_def c3d_vec3cross_def c3d_vec3normalize_def ex_tri_def ex_tri_flat_def)
  have s: "bucket_sums [?t] =
             ([\<lparr> x3 = 0, y3 = 0, z3 = 1 \<rparr>, \<lparr> x3 = 0, y3 = 0, z3 = 1 \<rparr>, \<lparr> x3 = 0, y3 = 0, z3 = 1 \<rparr>], [1, 1, 1])"
    by (simp add: bucket_sums_def u accumulate_step_def add_normal_def f vec3_zero_def
          numeral_3_eq_3 Let_def)
  have n: "bucket_normals [?t] =
             [\<lparr> x3 = 0, y3 = 0, z3 = 1 \<rparr>, \<lparr> x3 = 0, y3 = 0, z3 = 1 \<rparr>, \<lparr> x3 = 0, y3 = 0, z3 = 1 \<rparr>]"
    by (simp add: bucket_normals_def s average_normal_def c3d_vec3normalize_def)
  show ?thesis
    by (simp add: smooth_tris_def n u write_normals_def) (simp add: ex_tri_def ex_tri_flat_def)
qed

text \<open>
  Claim C7.  The smooth-normal pass is idempotent: a second run on the output of the
  first returns the same mesh, in particular the same per-corner normals.  The pass
  leaves every corner position as it was.
\<close>

theorem vecnormalavg_idempotent:
  "c3d_vecnormalavg (c3d_vecnormalavg m) = c3d_vecnormalavg m \<and>
   map nvx (tris (c3d_vecnormalavg (c3d_vecnormalavg m))) = map nvx (tris (c3d_vecnormalavg m)) \<and>
   map nvy (tris (c3d_vecnormalavg (c3d_vecnormalavg m))) = map nvy (tris (c3d_vecnormalavg m)) \<and>
   map nvz (tris (c3d_vecnormalavg (c3d_vecnormalavg m))) = map nvz (tris (c3d_vecnormalavg m)) \<and>
   positions_of (tris (c3d_vecnormalavg m)) = positions_of (tris m)"
  by (simp add: c3d_vecnormalavg_def smooth_tris_idem smooth_tris_positions)

section \<open>The per-frame driver: properties\<close>

text \<open>
  With such callbacks the walk terminates, visits every index once, and calls exactly
  the behaviours that were due at entry, in list order.
\<close>

lemma run_behaviors_trace:
  assumes k: "keeps_schedule call"
      and e: "frame_count d = frame_count d0" "behaviors d = behaviors d0"
      and i: "i \<le> length (behaviors d0)"
  shows "\<exists>d1. run_behaviors call d i fired =
                 Some (d1, fired @ filter (fires d0) [i..<length (behaviors d0)]) \<and>
              frame_count d1 = frame_count d0 \<and> behaviors d1 = behaviors d0"
  using e i
proof (induction "length (behaviors d0) - i" arbitrary: i d fired)
  case 0
  then have "i = length (behaviors d0)" by simp
  then show ?case using "0.prems" by (subst run_behaviors.simps) simp
next
  case (Suc n)
  then have lt: "i < length (behaviors d0)" by simp
  then have up: "[i..<length (behaviors d0)] = i # [i + 1..<length (behaviors d0)]"
    by (simp add: upt_conv_Cons)
  have n: "n = length (behaviors d0) - (i + 1)" and le: "i + 1 \<le> length (behaviors d0)"
    using Suc.hyps(2) lt by simp_all
  let ?b = "behaviors d0 ! i"
  have keep: "frame_count (call f d (args ?b)) = frame_count d0"
             "behaviors (call f d (args ?b)) = behaviors d0" for f
    using k Suc.prems(1,2) by (simp_all add: keeps_schedule_def)
  show ?case
  proof (cases "fires d0 i")
    case True
    then obtain f where f: "func ?b = Some f" by (auto simp: fires_def)
    from Suc.hyps(1) [OF n keep le, of f "fired @ [i]"]
    obtain d1 where "run_behaviors call (call f d (args ?b)) (i + 1) (fired @ [i]) =
                       Some (d1, (fired @ [i]) @ filter (fires d0) [i + 1..<length (behaviors d0)])"
        and "frame_count d1 = frame_count d0" "behaviors d1 = behaviors d0"
      by blast
    moreover have "run_behaviors call d i fired =
                     run_behaviors call (call f d (args ?b)) (i + 1) (fired @ [i])"
      using True f lt Suc.prems(1,2)
      by (subst run_behaviors.simps) (auto simp: fires_def Let_def split: behavior_type.splits)
    ultimately show ?thesis using True up by auto
  next
    case False
    from Suc.hyps(1) [OF n Suc.prems(1,2) le, of fired]
    obtain d1 where "run_behaviors call d (i + 1) fired =
                       Some (d1, fired @ filter (fires d0) [i + 1..<length (behaviors d0)])"
        and "frame_count d1 = frame_count d0" "behaviors d1 = behaviors d0"
      by blast
    moreover have "run_behaviors call d i fired = run_behaviors call d (i + 1) fired"
      using False lt Suc.prems(1,2)
      by (subst run_behaviors.simps)
         (auto simp: fires_def Let_def split: behavior_type.splits option.splits)
    ultimately show ?thesis using False up by auto
  qed
qed

text \<open>
  Claim C8 (as amended).  When the callbacks leave the frame counter and the behaviour
  list alone, \<^verbatim>\<open>c3d_update\<close> calls the behaviour at index \<open>i\<close> if and only if its
  function pointer is not null and it is tagged CONTINUOUS or the frame counter was 0 at
  entry: STARTUP callbacks run exactly when the counter is 0 at entry, CONTINUOUS
  callbacks always.  If drawing completes, the display handed to the composer and left
  behind has the frame counter of entry plus one (in 32-bit unsigned arithmetic).
\<close>

theorem update_schedule:
  assumes "keeps_schedule call"
  shows "\<exists>d1 ran. run_behaviors call d 0 [] = Some (d1, ran) \<and>
              ran = filter (fires d) [0..<length (behaviors d)] \<and>
              (\<forall>i < length (behaviors d).
                 i \<in> set ran \<longleftrightarrow>
                   func (behaviors d ! i) \<noteq> None \<and>
                   (btype (behaviors d ! i) = C3D_CONTINUOUS_BEHAVIOR \<or> frame_count d = 0)) \<and>
              frame_count d1 = frame_count d \<and> behaviors d1 = behaviors d \<and>
              c3d_update call c3d_render d =
                Some (map_sum id
                        (\<lambda>bufs. \<lparr> final = d1\<lparr> frame_count := frame_count d + 1 \<rparr>,
                                  ran_behaviors = ran,
                                  rendered = c3d_render (d1\<lparr> frame_count := frame_count d + 1 \<rparr>) bufs \<rparr>)
                        (draw_frame d1))"
proof -
  let ?ran = "filter (fires d) [0..<length (behaviors d)]"
  obtain d1 where r: "run_behaviors call d 0 [] = Some (d1, ?ran)"
      and f: "frame_count d1 = frame_count d" and b: "behaviors d1 = behaviors d"
    using run_behaviors_trace [OF assms, of d d 0 "[]"] by auto
  have u: "c3d_update call c3d_render d =
          Some (map_sum id
                  (\<lambda>bufs. \<lparr> final = d1\<lparr> frame_count := frame_count d + 1 \<rparr>,
                            ran_behaviors = ?ran,
                            rendered = c3d_render (d1\<lparr> frame_count := frame_count d + 1 \<rparr>) bufs \<rparr>)
                  (draw_frame d1))"
    by (simp add: c3d_update_def r f Let_def split: sum.splits)
  have m: "\<forall>i < length (behaviors d).
             i \<in> set ?ran \<longleftrightarrow>
               func (behaviors d ! i) \<noteq> None \<and>
               (btype (behaviors d ! i) = C3D_CONTINUOUS_BEHAVIOR \<or> frame_count d = 0)"
    by (simp add: fires_def)
  show ?thesis using r f b u m by blast
qed

lemma ex_call_keeps: "keeps_schedule ex_call"
  by (simp add: keeps_schedule_def ex_call_def)

lemma ex_fires_first: "filter (fires (ex_stage 0)) [0..<length (behaviors (ex_stage 0))] = [0, 1]"
proof -
  have "[0..<length (behaviors (ex_stage 0))] = [0, 1, 2]"
    by (simp add: ex_stage_def ex_behaviors_def upt_rec)
  then show ?thesis by (simp add: fires_def ex_stage_def ex_behaviors_def)
qed

lemma ex_fires_later: "filter (fires (ex_stage 1)) [0..<length (behaviors (ex_stage 1))] = [1]"
proof -
  have "[0..<length (behaviors (ex_stage 1))] = [0, 1, 2]"
    by (simp add: ex_stage_def ex_behaviors_def upt_rec)
  then show ?thesis by (simp add: fires_def ex_stage_def ex_behaviors_def)
qed

theorem update_schedule_witness:
  "keeps_schedule ex_call \<and>
   (\<exists>d1. run_behaviors ex_call (ex_stage 0) 0 [] = Some (d1, [0, 1]) \<and>
         c3d_update ex_call ex_render (ex_stage 0) =
           Some (map_sum id (\<lambda>bufs. \<lparr> final = d1\<lparr> frame_count := 1 \<rparr>, ran_behaviors = [0, 1],
                                      rendered = 1 \<rparr>) (draw_frame d1))) \<and>
   (\<exists>d1. run_behaviors ex_call (ex_stage 1) 0 [] = Some (d1, [1]) \<and>
         c3d_update ex_call ex_render (ex_stage 1) =
           Some (map_sum id (\<lambda>bufs. \<lparr> final = d1\<lparr> frame_count := 2 \<rparr>, ran_behaviors = [1],
                                      rendered = 2 \<rparr>) (draw_frame d1)))"
proof -
  have f0: "frame_count (ex_stage 0) = 0" and f1: "frame_count (ex_stage 1) = 1"
    by (simp_all add: ex_stage_def)
  from update_schedule [OF ex_call_keeps, of "ex_stage 0" ex_render]
  obtain d1 where a: "run_behaviors ex_call (ex_stage 0) 0 [] = Some (d1, [0, 1])"
     "c3d_update ex_call ex_render (ex_stage 0) =
           Some (map_sum id (\<lambda>bufs. \<lparr> final = d1\<lparr> frame_count := 1 \<rparr>, ran_behaviors = [0, 1],
                                      rendered = 1 \<rparr>) (draw_frame d1))"
    unfolding ex_fires_first f0 by (auto simp: ex_render_def)
  from update_schedule [OF ex_call_keeps, of "ex_stage 1" ex_render]
  obtain d2 where b: "run_behaviors ex_call (ex_stage 1) 0 [] = Some (d2, [1])"
     "c3d_update ex_call ex_render (ex_stage 1) =
           Some (map_sum id (\<lambda>bufs. \<lparr> final = d2\<lparr> frame_count := 2 \<rparr>, ran_behaviors = [1],
                                      rendered = 2 \<rparr>) (draw_frame d2))"
    unfolding ex_fires_later f1 by (auto simp: ex_render_def)
  show ?thesis using ex_call_keeps a b by blast
qed

text \<open>
  Without that condition the test is made on the counter as the earlier callbacks of the
  same walk left it: here the counter is 5 at entry, the first (continuous) callback
  resets the display, and the startup callback at index 1 runs.
\<close>

lemma ex_reset_run:
  "run_behaviors ex_reset_call ex_reset_stage 0 [] =
     Some ((c3d_resetdisplay ex_reset_stage)\<lparr> running := False \<rparr>, [0, 1])"
proof -
  have b: "behaviors ex_reset_stage = ex_reset_behaviors"
          "behaviors (c3d_resetdisplay ex_reset_stage) = ex_reset_behaviors"
          "frame_count (c3d_resetdisplay ex_reset_stage) = 0"
    by (simp_all add: ex_reset_stage_def c3d_resetdisplay_def)
  have 2: "run_behaviors ex_reset_call ((c3d_resetdisplay ex_reset_stage)\<lparr> running := False \<rparr>) 2 [0, 1]
             = Some ((c3d_resetdisplay ex_reset_stage)\<lparr> running := False \<rparr>, [0, 1])"
    by (subst run_behaviors.simps) (simp add: b ex_reset_behaviors_def)
  have 1: "run_behaviors ex_reset_call (c3d_resetdisplay ex_reset_stage) 1 [0]
             = run_behaviors ex_reset_call ((c3d_resetdisplay ex_reset_stage)\<lparr> running := False \<rparr>) 2 [0, 1]"
    by (subst run_behaviors.simps) (simp add: b ex_reset_behaviors_def ex_reset_call_def numeral_2_eq_2)
  have 0: "run_behaviors ex_reset_call ex_reset_stage 0 []
             = run_behaviors ex_reset_call (c3d_resetdisplay ex_reset_stage) 1 [0]"
    by (subst run_behaviors.simps) (simp add: b ex_reset_behaviors_def ex_reset_call_def)
  show ?thesis by (simp only: 0 1 2)
qed

theorem update_schedule_counterexample:
  "frame_count ex_reset_stage = 5 \<and>
   btype (behaviors ex_reset_stage ! 1) = C3D_STARTUP_BEHAVIOR \<and>
   c3d_update ex_reset_call ex_render ex_reset_stage =
     Some (Inr \<lparr> final = (c3d_resetdisplay ex_reset_stage)\<lparr> running := False, frame_count := 1 \<rparr>,
                 ran_behaviors = [0, 1], rendered = 1 \<rparr>)"
proof -
  have m: "meshes ((c3d_resetdisplay ex_reset_stage)\<lparr> running := False \<rparr>) = []"
    and f: "frame_count ((c3d_resetdisplay ex_reset_stage)\<lparr> running := False \<rparr>) = 0"
    by (simp_all add: c3d_resetdisplay_def)
  have d: "draw_frame ((c3d_resetdisplay ex_reset_stage)\<lparr> running := False \<rparr>)
             = Inr (fresh_buffers ((c3d_resetdisplay ex_reset_stage)\<lparr> running := False \<rparr>))"
    by (simp add: draw_frame_def m)
  have u: "c3d_update ex_reset_call ex_render ex_reset_stage =
     Some (Inr \<lparr> final = (c3d_resetdisplay ex_reset_stage)\<lparr> running := False, frame_count := 1 \<rparr>,
                 ran_behaviors = [0, 1], rendered = 1 \<rparr>)"
    by (simp add: c3d_update_def ex_reset_run d f Let_def ex_render_def)
  show ?thesis
    using u by (simp add: ex_reset_stage_def ex_reset_behaviors_def)
qed

end
